theory Spec2Isabelle
  imports Main "HOL-Library.Word"
begin

unbundle bit_operations_syntax

section \<open>Cryptoki scalar types and codes\<close>

text \<open>
  \<^verbatim>\<open>CK_ULONG\<close>, \<^verbatim>\<open>CK_FLAGS\<close> and \<^verbatim>\<open>CK_MECHANISM_TYPE\<close> are
  \<^verbatim>\<open>unsigned long\<close> (64 bits on LP64), \<^verbatim>\<open>unsigned int\<close> and \<^verbatim>\<open>int\<close> are
  32 bits wide. The header that declares them (pkcs11.h) is not part of mechanism.c; the flag
  and key-type values below are the ones the Cryptoki standard fixes.
\<close>

type_synonym CK_ULONG = "64 word"
type_synonym CK_FLAGS = "64 word"
type_synonym CK_MECHANISM_TYPE = "64 word"
type_synonym CK_KEY_TYPE = "64 word"
type_synonym CK_ATTRIBUTE_TYPE = "64 word"
type_synonym CK_BYTE = "8 word"
type_synonym uint = "32 word"
type_synonym cint = "32 word"

text \<open>
  \<^verbatim>\<open>CK_RV\<close> is an \<^verbatim>\<open>unsigned long\<close>; the response codes that mechanism.c names have
  the values the Cryptoki standard fixes. A hook of a key or of a descriptor may answer any
  value.
\<close>

type_synonym CK_RV = CK_ULONG

definition CKR_OK :: CK_RV where [simp]: "CKR_OK = 0x0"
definition CKR_HOST_MEMORY :: CK_RV where [simp]: "CKR_HOST_MEMORY = 0x2"
definition CKR_FUNCTION_FAILED :: CK_RV where [simp]: "CKR_FUNCTION_FAILED = 0x6"
definition CKR_ARGUMENTS_BAD :: CK_RV where [simp]: "CKR_ARGUMENTS_BAD = 0x7"
definition CKR_ATTRIBUTE_TYPE_INVALID :: CK_RV where [simp]: "CKR_ATTRIBUTE_TYPE_INVALID = 0x12"
definition CKR_KEY_TYPE_INCONSISTENT :: CK_RV where [simp]: "CKR_KEY_TYPE_INCONSISTENT = 0x63"
definition CKR_MECHANISM_INVALID :: CK_RV where [simp]: "CKR_MECHANISM_INVALID = 0x70"
definition CKR_OPERATION_NOT_INITIALIZED :: CK_RV where
  [simp]: "CKR_OPERATION_NOT_INITIALIZED = 0x91"
definition CKR_TOKEN_NOT_PRESENT :: CK_RV where [simp]: "CKR_TOKEN_NOT_PRESENT = 0xE0"
definition CKR_BUFFER_TOO_SMALL :: CK_RV where [simp]: "CKR_BUFFER_TOO_SMALL = 0x150"

text \<open>
  Most functions of mechanism.c return through \<^verbatim>\<open>LOG_FUNC_RETURN(context, (int) rv)\<close>: the
  code is narrowed to \<^verbatim>\<open>int\<close> and widened again, with its sign, to the \<^verbatim>\<open>CK_RV\<close>
  the function returns. \<open>int_cast\<close> is that round trip; it leaves every code below
  \<open>0x80000000\<close> as it is.
\<close>

definition int_cast :: "CK_RV \<Rightarrow> CK_RV" where
  "int_cast rv = scast (ucast rv :: cint)"

definition CKF_ENCRYPT :: uint where "CKF_ENCRYPT = 0x100"
definition CKF_DECRYPT :: uint where "CKF_DECRYPT = 0x200"
definition CKF_DIGEST :: uint where "CKF_DIGEST = 0x400"
definition CKF_SIGN :: uint where "CKF_SIGN = 0x800"
definition CKF_VERIFY :: uint where "CKF_VERIFY = 0x2000"
definition CKF_WRAP :: uint where "CKF_WRAP = 0x20000"
definition CKF_UNWRAP :: uint where "CKF_UNWRAP = 0x40000"
definition CKF_DERIVE :: uint where "CKF_DERIVE = 0x80000"

definition CKK_RSA :: CK_KEY_TYPE where "CKK_RSA = 0x0"
definition CKK_EC :: CK_KEY_TYPE where "CKK_EC = 0x3"
definition CKK_GOSTR3410 :: CK_KEY_TYPE where "CKK_GOSTR3410 = 0x30"
definition CKK_EC_EDWARDS :: CK_KEY_TYPE where "CKK_EC_EDWARDS = 0x40"
definition CKK_EC_MONTGOMERY :: CK_KEY_TYPE where "CKK_EC_MONTGOMERY = 0x41"

definition CKA_KEY_TYPE :: CK_ATTRIBUTE_TYPE where "CKA_KEY_TYPE = 0x100"
definition CKA_MODULUS_BITS :: CK_ATTRIBUTE_TYPE where "CKA_MODULUS_BITS = 0x121"

section \<open>Mechanism descriptors and the registry\<close>

text \<open>
  A function pointer is the name of the function it points to; \<open>None\<close> is the null
  pointer. The static functions of mechanism.c that \<^verbatim>\<open>sc_pkcs11_new_fw_mechanism\<close> installs
  are named; \<open>Extern\<close> is a function of another file. What a call through a pointer does
  is given by an environment (below), so that a descriptor stays plain data.
\<close>

datatype fnptr =
    Fn_signature_init | Fn_signature_update | Fn_signature_final | Fn_signature_size
  | Fn_verify_init | Fn_verify_update | Fn_verify_final
  | Fn_decrypt_init | Fn_decrypt | Fn_decrypt_update | Fn_decrypt_final
  | Fn_encrypt_init | Fn_encrypt | Fn_encrypt_update | Fn_encrypt_final
  | Fn_derive | Fn_wrap_operation | Fn_unwrap_operation | Fn_operation_release
  | Fn_free_info | Fn_copy_hash_signature_info
  | Extern nat

record CK_MECHANISM_INFO =
  ulMinKeySize :: CK_ULONG
  ulMaxKeySize :: CK_ULONG
  flags :: CK_FLAGS

text \<open>
  \<^verbatim>\<open>sc_pkcs11_mechanism_type_t\<close>. The field \<open>key_types\<close> is the array
  \<^verbatim>\<open>int key_types[MAX_KEY_TYPES]\<close>: the length of the list is \<^verbatim>\<open>MAX_KEY_TYPES\<close>
  (the macro is defined outside mechanism.c). The untyped \<^verbatim>\<open>mech_data\<close> pointer is a
  type parameter. The one-shot hooks \<^verbatim>\<open>encrypt\<close> and \<^verbatim>\<open>decrypt\<close> are the fields
  \<open>encrypt_oneshot\<close> and \<open>decrypt_oneshot\<close>.
\<close>

record 'd sc_pkcs11_mechanism_type =
  mech :: CK_MECHANISM_TYPE
  mech_info :: CK_MECHANISM_INFO
  key_types :: "cint list"
  obj_size :: nat
  release :: "fnptr option"
  md_init :: "fnptr option"
  md_update :: "fnptr option"
  md_final :: "fnptr option"
  sign_init :: "fnptr option"
  sign_update :: "fnptr option"
  sign_final :: "fnptr option"
  sign_size :: "fnptr option"
  verif_init :: "fnptr option"
  verif_update :: "fnptr option"
  verif_final :: "fnptr option"
  decrypt_init :: "fnptr option"
  decrypt_oneshot :: "fnptr option"
  decrypt_update :: "fnptr option"
  decrypt_final :: "fnptr option"
  encrypt_init :: "fnptr option"
  encrypt_oneshot :: "fnptr option"
  encrypt_update :: "fnptr option"
  encrypt_final :: "fnptr option"
  derive :: "fnptr option"
  wrap :: "fnptr option"
  unwrap :: "fnptr option"
  mech_data :: "'d option"
  free_mech_data :: "fnptr option"
  copy_mech_data :: "fnptr option"

text \<open>
  \<^verbatim>\<open>struct sc_pkcs11_card\<close>, the part mechanism.c uses: the array \<^verbatim>\<open>mechanisms\<close> of
  pointers to descriptors (an entry may be null), \<^verbatim>\<open>nmechanisms\<close> being its length.
  A pointer to a registered descriptor is its index in the array.
\<close>

record 'd sc_pkcs11_card =
  mechanisms :: "'d sc_pkcs11_mechanism_type option list"

definition update_mech_info :: "CK_MECHANISM_INFO \<Rightarrow> CK_MECHANISM_INFO \<Rightarrow> CK_MECHANISM_INFO" where
  "update_mech_info mi new_mi =
     (let mi1 = (if ulMaxKeySize mi < ulMaxKeySize new_mi
                 then mi\<lparr>ulMaxKeySize := ulMaxKeySize new_mi\<rparr> else mi);
          mi2 = (if ulMinKeySize new_mi < ulMinKeySize mi1
                 then mi1\<lparr>ulMinKeySize := ulMinKeySize new_mi\<rparr> else mi1)
      in mi2\<lparr>flags := flags mi2 OR flags new_mi\<rparr>)"

text \<open>
  \<^verbatim>\<open>sc_pkcs11_find_mechanism\<close>: the first entry, from index \<open>n\<close> on, that is not null, has
  the id and whose flags contain the required ones. The required flags arrive as
  \<^verbatim>\<open>unsigned int\<close> and are widened for the comparison with the \<^verbatim>\<open>CK_FLAGS\<close> field.
  The pointer returned is the index of the entry, given together with the descriptor it
  points to.
\<close>

fun find_mechanism_from ::
  "'d sc_pkcs11_mechanism_type option list \<Rightarrow> nat \<Rightarrow> CK_MECHANISM_TYPE \<Rightarrow> uint \<Rightarrow>
     (nat \<times> 'd sc_pkcs11_mechanism_type) option" where
  "find_mechanism_from [] n m fl = None"
| "find_mechanism_from (p # ps) n m fl =
     (case p of
        Some mt \<Rightarrow>
          if mech mt = m \<and> (flags (mech_info mt) AND ucast fl) = ucast fl then Some (n, mt)
          else find_mechanism_from ps (Suc n) m fl
      | None \<Rightarrow> find_mechanism_from ps (Suc n) m fl)"

definition sc_pkcs11_find_mechanism ::
  "'d sc_pkcs11_card \<Rightarrow> CK_MECHANISM_TYPE \<Rightarrow> uint \<Rightarrow> (nat \<times> 'd sc_pkcs11_mechanism_type) option" where
  "sc_pkcs11_find_mechanism p11card m fl = find_mechanism_from (mechanisms p11card) 0 m fl"

text \<open>
  The environment of a registration: what the descriptor's \<^verbatim>\<open>copy_mech_data\<close> hook answers
  (a code and the new private data), and whether \<^verbatim>\<open>realloc\<close> and \<^verbatim>\<open>calloc\<close> succeed.
\<close>

record 'd register_env =
  call_copy_mech_data :: "fnptr \<Rightarrow> 'd option \<Rightarrow> CK_RV \<times> 'd option"
  realloc_ok :: bool
  calloc_ok :: bool

definition sc_pkcs11_copy_mechanism ::
  "'d register_env \<Rightarrow> 'd sc_pkcs11_mechanism_type \<Rightarrow> CK_RV \<times> 'd sc_pkcs11_mechanism_type option" where
  "sc_pkcs11_copy_mechanism env mt =
     (if \<not> calloc_ok env then (CKR_HOST_MEMORY, None)
      else case copy_mech_data mt of
             None \<Rightarrow> (CKR_OK, Some mt)
           | Some f \<Rightarrow>
               (case call_copy_mech_data env f (mech_data mt) of
                  (rv, d) \<Rightarrow>
                    if rv \<noteq> CKR_OK then (rv, None)
                    else (CKR_OK, Some (mt\<lparr>mech_data := d\<rparr>))))"

text \<open>
  The loop of \<^verbatim>\<open>sc_pkcs11_register_mechanism\<close> over the slots of the descriptor found,
  from slot \<open>i\<close> on: \<open>Some\<close> of the slots after the merge, \<open>None\<close> when the loop ends
  without a matching or free slot.
\<close>

function add_key_type :: "cint list \<Rightarrow> nat \<Rightarrow> cint \<Rightarrow> cint list option" where
  "add_key_type kts i new =
     (if i < length kts then
        (if kts ! i = new then Some kts
         else if kts ! i <s 0 then
           Some (let kts1 = kts[i := new]
                 in if i + 1 < length kts then kts1[i + 1 := - 1] else kts1)
         else add_key_type kts (i + 1) new)
      else None)"
  by pat_completeness auto
termination
  by (relation "measure (\<lambda>(kts, i, new). length kts - i)") auto

declare add_key_type.simps [simp del]

text \<open>
  What a call of \<^verbatim>\<open>sc_pkcs11_register_mechanism\<close> leaves: the code it returns and the
  card. When the clone fails after \<^verbatim>\<open>realloc\<close> succeeded, the code frees the block
  \<^verbatim>\<open>realloc\<close> returned and leaves \<^verbatim>\<open>p11card->mechanisms\<close> as it was: a pointer to
  released storage unless it was null. \<open>Registry_released\<close> is that outcome.
\<close>

datatype 'd register_outcome =
    Returned CK_RV "'d sc_pkcs11_card"
  | Registry_released CK_RV

definition sc_pkcs11_register_mechanism ::
  "'d register_env \<Rightarrow> 'd sc_pkcs11_card \<Rightarrow> 'd sc_pkcs11_mechanism_type option \<Rightarrow> 'd register_outcome" where
  "sc_pkcs11_register_mechanism env p11card mt_ptr =
     (case mt_ptr of
        None \<Rightarrow> Returned CKR_HOST_MEMORY p11card
      | Some mt \<Rightarrow>
         (case sc_pkcs11_find_mechanism p11card (mech mt) (ucast (flags (mech_info mt))) of
            Some (e, existing_mt) \<Rightarrow>
              (case add_key_type (key_types existing_mt) 0 (key_types mt ! 0) of
                 Some kts \<Rightarrow>
                   Returned CKR_OK
                     (p11card\<lparr>mechanisms := (mechanisms p11card)
                        [e := Some (existing_mt
                           \<lparr>mech_info := update_mech_info (mech_info existing_mt) (mech_info mt),
                            key_types := kts\<rparr>)]\<rparr>)
               | None \<Rightarrow> Returned CKR_BUFFER_TOO_SMALL p11card)
          | None \<Rightarrow>
              if \<not> realloc_ok env then Returned CKR_HOST_MEMORY p11card
              else (case sc_pkcs11_copy_mechanism env mt of
                      (rv, None) \<Rightarrow>
                        if mechanisms p11card = [] then Returned rv p11card
                        else Registry_released rv
                    | (rv, Some copy_mt) \<Rightarrow>
                        Returned CKR_OK
                          (p11card\<lparr>mechanisms := mechanisms p11card @ [Some copy_mt]\<rparr>))))"

definition sc_pkcs11_get_mechanism_info ::
  "'d sc_pkcs11_card \<Rightarrow> CK_MECHANISM_TYPE \<Rightarrow> CK_MECHANISM_INFO \<Rightarrow> CK_RV \<times> CK_MECHANISM_INFO" where
  "sc_pkcs11_get_mechanism_info p11card mechanism pInfo =
     (case sc_pkcs11_find_mechanism p11card mechanism 0 of
        None \<Rightarrow> (CKR_MECHANISM_INVALID, pInfo)
      | Some (i, mt) \<Rightarrow> (CKR_OK, mech_info mt))"

text \<open>
  A sequence of registrations, each with its own environment; a failed call leaves the card
  to the next one. \<open>None\<close>: a call left the array released.
\<close>

fun register_all ::
  "'d sc_pkcs11_card \<Rightarrow> ('d register_env \<times> 'd sc_pkcs11_mechanism_type option) list \<Rightarrow>
     'd sc_pkcs11_card option" where
  "register_all p11card [] = Some p11card"
| "register_all p11card ((env, mt) # calls) =
     (case sc_pkcs11_register_mechanism env p11card mt of
        Returned rv p11card' \<Rightarrow> register_all p11card' calls
      | Registry_released rv \<Rightarrow> None)"

text \<open>
  \<^verbatim>\<open>sc_pkcs11_new_fw_mechanism\<close>, with \<^verbatim>\<open>ENABLE_OPENSSL\<close> defined. \<open>n\<close> is
  \<^verbatim>\<open>MAX_KEY_TYPES\<close> (at least 2, since slot 1 is written) and \<open>sz\<close> is
  \<^verbatim>\<open>sizeof(sc_pkcs11_operation_t)\<close>; \<^verbatim>\<open>calloc\<close> leaves every other field zero.
\<close>

definition calloc_mechanism_type :: "nat \<Rightarrow> 'd sc_pkcs11_mechanism_type" where
  "calloc_mechanism_type n =
     \<lparr>mech = 0, mech_info = \<lparr>ulMinKeySize = 0, ulMaxKeySize = 0, flags = 0\<rparr>,
      key_types = replicate n 0, obj_size = 0, release = None,
      md_init = None, md_update = None, md_final = None,
      sign_init = None, sign_update = None, sign_final = None, sign_size = None,
      verif_init = None, verif_update = None, verif_final = None,
      decrypt_init = None, decrypt_oneshot = None, decrypt_update = None, decrypt_final = None,
      encrypt_init = None, encrypt_oneshot = None, encrypt_update = None, encrypt_final = None,
      derive = None, wrap = None, unwrap = None,
      mech_data = None, free_mech_data = None, copy_mech_data = None\<rparr>"

definition sc_pkcs11_new_fw_mechanism ::
  "bool \<Rightarrow> nat \<Rightarrow> nat \<Rightarrow> CK_MECHANISM_TYPE \<Rightarrow> CK_MECHANISM_INFO \<Rightarrow> CK_KEY_TYPE \<Rightarrow> 'd option \<Rightarrow>
     fnptr option \<Rightarrow> fnptr option \<Rightarrow> 'd sc_pkcs11_mechanism_type option" where
  "sc_pkcs11_new_fw_mechanism calloc_succeeds n sz m pInfo key_type priv free_priv copy_priv =
     (if \<not> calloc_succeeds then None
      else
        let mt0 = (calloc_mechanism_type n)
              \<lparr>mech := m, mech_info := pInfo,
               key_types := (replicate n 0)[0 := ucast key_type, 1 := - 1],
               mech_data := priv, free_mech_data := free_priv, copy_mech_data := copy_priv,
               obj_size := sz, release := Some Fn_operation_release\<rparr>;
            mt1 = (if flags pInfo AND ucast CKF_SIGN \<noteq> 0
                   then mt0\<lparr>sign_init := Some Fn_signature_init,
                            sign_update := Some Fn_signature_update,
                            sign_final := Some Fn_signature_final,
                            sign_size := Some Fn_signature_size,
                            verif_init := Some Fn_verify_init,
                            verif_update := Some Fn_verify_update,
                            verif_final := Some Fn_verify_final\<rparr>
                   else mt0);
            mt2 = (if flags pInfo AND ucast CKF_WRAP \<noteq> 0
                   then mt1\<lparr>wrap := Some Fn_wrap_operation\<rparr> else mt1);
            mt3 = (if flags pInfo AND ucast CKF_UNWRAP \<noteq> 0
                   then mt2\<lparr>unwrap := Some Fn_unwrap_operation\<rparr> else mt2);
            mt4 = (if flags pInfo AND ucast CKF_DERIVE \<noteq> 0
                   then mt3\<lparr>derive := Some Fn_derive\<rparr> else mt3);
            mt5 = (if flags pInfo AND ucast CKF_DECRYPT \<noteq> 0
                   then mt4\<lparr>decrypt_init := Some Fn_decrypt_init,
                            decrypt_oneshot := Some Fn_decrypt,
                            decrypt_update := Some Fn_decrypt_update,
                            decrypt_final := Some Fn_decrypt_final\<rparr>
                   else mt4);
            mt6 = (if flags pInfo AND ucast CKF_ENCRYPT \<noteq> 0
                   then mt5\<lparr>encrypt_init := Some Fn_encrypt_init,
                            encrypt_oneshot := Some Fn_encrypt,
                            encrypt_update := Some Fn_encrypt_update,
                            encrypt_final := Some Fn_encrypt_final\<rparr>
                   else mt5)
        in Some mt6)"

text \<open>
  The ids held by a registry, in order, and the flags of a descriptor as
  \<^verbatim>\<open>sc_pkcs11_register_mechanism\<close> hands them to the lookup (narrowed to
  \<^verbatim>\<open>unsigned int\<close>).
\<close>

definition registered_ids :: "'d sc_pkcs11_mechanism_type option list \<Rightarrow> CK_MECHANISM_TYPE list" where
  "registered_ids ms = List.map_filter (map_option mech) ms"

definition lookup_flags :: "'d sc_pkcs11_mechanism_type \<Rightarrow> uint" where
  "lookup_flags mt = ucast (flags (mech_info mt))"

text \<open>
  \<open>shadows a b\<close>: a lookup for the id and flags of \<open>b\<close> accepts \<open>a\<close>. A registry is
  \<open>unshadowed\<close> when no descriptor is accepted by the lookup for a later one.
\<close>

definition shadows :: "'d sc_pkcs11_mechanism_type \<Rightarrow> 'd sc_pkcs11_mechanism_type \<Rightarrow> bool" where
  "shadows a b \<longleftrightarrow>
     mech a = mech b \<and> (flags (mech_info a) AND ucast (lookup_flags b)) = ucast (lookup_flags b)"

fun unshadowed :: "'d sc_pkcs11_mechanism_type option list \<Rightarrow> bool" where
  "unshadowed [] = True"
| "unshadowed (p # ps) =
     ((case p of
         None \<Rightarrow> True
       | Some a \<Rightarrow> list_all (\<lambda>q. case q of None \<Rightarrow> True | Some b \<Rightarrow> \<not> shadows a b) ps)
      \<and> unshadowed ps)"

text \<open>What the lookup reads of a descriptor: its id and the low 32 bits of its flags.\<close>

definition lookup_key :: "'d sc_pkcs11_mechanism_type \<Rightarrow> CK_MECHANISM_TYPE \<times> uint" where
  "lookup_key mt = (mech mt, lookup_flags mt)"

subsection \<open>A small token\<close>

text \<open>
  Descriptors as \<^verbatim>\<open>sc_pkcs11_new_fw_mechanism\<close> builds them with two key-type slots:
  mechanism 1 for signing, and mechanism 1 again for signing and verifying, each for a key
  type. \<open>full_card\<close> is the card after the signing mechanism was registered for RSA keys and
  for EC keys.
\<close>

definition plain_env :: "nat register_env" where
  "plain_env = \<lparr>call_copy_mech_data = (\<lambda>f d. (CKR_OK, d)), realloc_ok = True, calloc_ok = True\<rparr>"

definition sign_info :: CK_MECHANISM_INFO where
  "sign_info = \<lparr>ulMinKeySize = 1024, ulMaxKeySize = 2048, flags = 0x800\<rparr>"

definition sign_verify_info :: CK_MECHANISM_INFO where
  "sign_verify_info = \<lparr>ulMinKeySize = 256, ulMaxKeySize = 512, flags = 0x2800\<rparr>"

definition sign_with :: "CK_KEY_TYPE \<Rightarrow> nat sc_pkcs11_mechanism_type" where
  "sign_with kt = the (sc_pkcs11_new_fw_mechanism True 2 96 1 sign_info kt None None None)"

definition sign_verify_with :: "CK_KEY_TYPE \<Rightarrow> nat sc_pkcs11_mechanism_type" where
  "sign_verify_with kt =
     the (sc_pkcs11_new_fw_mechanism True 2 96 1 sign_verify_info kt None None None)"

definition empty_card :: "nat sc_pkcs11_card" where
  "empty_card = \<lparr>mechanisms = []\<rparr>"

definition full_card :: "nat sc_pkcs11_card" where
  "full_card =
     the (register_all empty_card
            [(plain_env, Some (sign_with CKK_RSA)), (plain_env, Some (sign_with CKK_EC))])"

text \<open>
  The card after the signing mechanism was registered for RSA keys only, and the signing
  mechanism offered with a wider key-size range.
\<close>

definition rsa_card :: "nat sc_pkcs11_card" where
  "rsa_card = the (register_all empty_card [(plain_env, Some (sign_with CKK_RSA))])"

definition wide_sign_info :: CK_MECHANISM_INFO where
  "wide_sign_info = \<lparr>ulMinKeySize = 512, ulMaxKeySize = 4096, flags = 0x800\<rparr>"

definition wide_sign_with :: "CK_KEY_TYPE \<Rightarrow> nat sc_pkcs11_mechanism_type" where
  "wide_sign_with kt = the (sc_pkcs11_new_fw_mechanism True 2 96 1 wide_sign_info kt None None None)"

section \<open>Keys, operation handles and sessions\<close>

text \<open>
  What C leaves undefined is an outcome of its own: a call through a null function pointer,
  a read through a null data pointer, a \<^verbatim>\<open>memcpy\<close> past the end of its destination, and
  a read of storage that is no longer allocated.
\<close>

datatype fault = Null_call | Null_dereference | Out_of_bounds | Invalid_read

record CK_MECHANISM =
  mechanism :: CK_MECHANISM_TYPE
  pParameter :: "CK_BYTE list option"
  ulParameterLen :: CK_ULONG

text \<open>
  A caller's input is a pointer (null, or the bytes it points to) and a length; a caller's
  output buffer is a pointer and the length stored behind \<^verbatim>\<open>pulLen\<close>.
\<close>

type_synonym in_buffer = "CK_BYTE list option \<times> CK_ULONG"

record out_buffer =
  out_ptr :: "CK_BYTE list option"
  out_len :: CK_ULONG

text \<open>
  The key capability interface, as far as mechanism.c calls it for the functions below. The
  hooks are the functions of the key as bound to the session and the key object they are
  called with; \<open>get_attribute\<close> answers a code and, for an attribute of \<^verbatim>\<open>CK_ULONG\<close> size,
  the value it stores on success; \<open>sign\<close> is given the mechanism, the data to sign and the
  caller's output buffer, and answers a code and the buffer as it leaves it.
\<close>

record sc_pkcs11_object_ops =
  can_do :: "(CK_MECHANISM_TYPE \<Rightarrow> uint \<Rightarrow> CK_RV) option"
  init_params :: "(CK_MECHANISM \<Rightarrow> CK_RV) option"
  get_attribute :: "CK_ATTRIBUTE_TYPE \<Rightarrow> CK_RV \<times> CK_ULONG"
  sign :: "CK_MECHANISM \<Rightarrow> in_buffer \<Rightarrow> out_buffer \<Rightarrow> CK_RV \<times> out_buffer"

record sc_pkcs11_object =
  ops :: sc_pkcs11_object_ops

text \<open>
  \<^verbatim>\<open>sc_pkcs11_operation_t\<close>. The handle holds the descriptor it is bound to; its untyped
  \<^verbatim>\<open>priv_data\<close> pointer is a type parameter. The back pointer to the session is left
  out: the session is passed along.
\<close>

record ('d, 'p) sc_pkcs11_operation =
  op_type :: "'d sc_pkcs11_mechanism_type"
  op_mechanism :: CK_MECHANISM
  mechanism_params :: "CK_BYTE list"
  priv_data :: "'p option"

datatype operation_kind =
    SC_PKCS11_OPERATION_FIND
  | SC_PKCS11_OPERATION_SIGN
  | SC_PKCS11_OPERATION_VERIFY
  | SC_PKCS11_OPERATION_DIGEST
  | SC_PKCS11_OPERATION_DECRYPT
  | SC_PKCS11_OPERATION_ENCRYPT
  | SC_PKCS11_OPERATION_DERIVE
  | SC_PKCS11_OPERATION_WRAP
  | SC_PKCS11_OPERATION_UNWRAP

record 'd sc_pkcs11_slot =
  slot_p11card :: "'d sc_pkcs11_card option"

record ('d, 'p) sc_pkcs11_session =
  slot :: "'d sc_pkcs11_slot option"
  operation :: "operation_kind \<Rightarrow> ('d, 'p) sc_pkcs11_operation option"

text \<open>
  The environment of a dispatcher call: what a call through a function pointer of each
  function type does to the handle (and to the caller's output buffer), the size of the
  \<^verbatim>\<open>mechanism_params\<close> union, what the session manager answers to a start request and
  whether \<^verbatim>\<open>calloc\<close> succeeds.
\<close>

record ('d, 'p) call_env =
  call_op :: "fnptr \<Rightarrow> ('d, 'p) sc_pkcs11_operation \<Rightarrow> CK_RV \<times> ('d, 'p) sc_pkcs11_operation"
  call_op_key ::
    "fnptr \<Rightarrow> ('d, 'p) sc_pkcs11_operation \<Rightarrow> sc_pkcs11_object \<Rightarrow>
       CK_RV \<times> ('d, 'p) sc_pkcs11_operation"
  call_op_out ::
    "fnptr \<Rightarrow> ('d, 'p) sc_pkcs11_operation \<Rightarrow> out_buffer \<Rightarrow>
       CK_RV \<times> ('d, 'p) sc_pkcs11_operation \<times> out_buffer"
  call_op_in_out ::
    "fnptr \<Rightarrow> ('d, 'p) sc_pkcs11_operation \<Rightarrow> in_buffer \<Rightarrow> out_buffer \<Rightarrow>
       CK_RV \<times> ('d, 'p) sc_pkcs11_operation \<times> out_buffer"
  call_wrap ::
    "fnptr \<Rightarrow> ('d, 'p) sc_pkcs11_operation \<Rightarrow> sc_pkcs11_object \<Rightarrow> sc_pkcs11_object \<Rightarrow>
       out_buffer \<Rightarrow> CK_RV \<times> ('d, 'p) sc_pkcs11_operation \<times> out_buffer"
  call_unwrap ::
    "fnptr \<Rightarrow> ('d, 'p) sc_pkcs11_operation \<Rightarrow> sc_pkcs11_object \<Rightarrow> in_buffer \<Rightarrow>
       sc_pkcs11_object \<Rightarrow> CK_RV \<times> ('d, 'p) sc_pkcs11_operation"
  call_derive ::
    "fnptr \<Rightarrow> ('d, 'p) sc_pkcs11_operation \<Rightarrow> sc_pkcs11_object \<Rightarrow> in_buffer \<Rightarrow>
       out_buffer \<Rightarrow> CK_RV \<times> ('d, 'p) sc_pkcs11_operation \<times> out_buffer"
  sizeof_mechanism_params :: nat
  start_operation_answer :: CK_RV
  calloc_succeeds :: bool

definition sc_pkcs11_new_operation ::
  "bool \<Rightarrow> nat \<Rightarrow> 'd sc_pkcs11_mechanism_type \<Rightarrow> ('d, 'p) sc_pkcs11_operation option" where
  "sc_pkcs11_new_operation alloc_ok params_size type =
     (if alloc_ok
      then Some \<lparr>op_type = type,
                 op_mechanism = \<lparr>mechanism = 0, pParameter = None, ulParameterLen = 0\<rparr>,
                 mechanism_params = replicate params_size 0,
                 priv_data = None\<rparr>
      else None)"

text \<open>
  Modelled from the spec: the session interface (\<^verbatim>\<open>session_start_operation\<close>,
  \<^verbatim>\<open>session_get_operation\<close>, \<^verbatim>\<open>session_stop_operation\<close>) is not in mechanism.c. The
  spec has: ``startOperation(session, kind, descriptor) -> handle|Error (replaces existing
  handle of that kind), getOperation(session, kind) -> handle|OperationNotInitialized,
  stopOperation(session, kind) (idempotent)''. A start either answers an error and leaves
  the session, or installs a handle made by \<^verbatim>\<open>sc_pkcs11_new_operation\<close>.
\<close>

definition session_start_operation ::
  "('d, 'p) call_env \<Rightarrow> ('d, 'p) sc_pkcs11_session \<Rightarrow> operation_kind \<Rightarrow>
     'd sc_pkcs11_mechanism_type \<Rightarrow>
     CK_RV + (('d, 'p) sc_pkcs11_session \<times> ('d, 'p) sc_pkcs11_operation)" where
  "session_start_operation env session kind mt =
     (if start_operation_answer env \<noteq> CKR_OK then Inl (start_operation_answer env)
      else case sc_pkcs11_new_operation (calloc_succeeds env) (sizeof_mechanism_params env) mt of
             None \<Rightarrow> Inl CKR_HOST_MEMORY
           | Some op \<Rightarrow> Inr (session\<lparr>operation := (operation session)(kind \<mapsto> op)\<rparr>, op))"

definition session_get_operation ::
  "('d, 'p) sc_pkcs11_session \<Rightarrow> operation_kind \<Rightarrow> CK_RV + ('d, 'p) sc_pkcs11_operation" where
  "session_get_operation session kind =
     (case operation session kind of
        None \<Rightarrow> Inl CKR_OPERATION_NOT_INITIALIZED
      | Some op \<Rightarrow> Inr op)"

definition session_stop_operation ::
  "('d, 'p) sc_pkcs11_session \<Rightarrow> operation_kind \<Rightarrow> ('d, 'p) sc_pkcs11_session" where
  "session_stop_operation session kind = session\<lparr>operation := (operation session)(kind := None)\<rparr>"

text \<open>
  The handle a dispatcher works on is the one installed in the session: what a hook or the
  dispatcher writes to it is written to the installed handle.
\<close>

definition put_operation ::
  "('d, 'p) sc_pkcs11_session \<Rightarrow> operation_kind \<Rightarrow> ('d, 'p) sc_pkcs11_operation \<Rightarrow>
     ('d, 'p) sc_pkcs11_session" where
  "put_operation session kind op = session\<lparr>operation := (operation session)(kind \<mapsto> op)\<rparr>"

text \<open>
  The guard \<^verbatim>\<open>!session || !session->slot || !(p11card = session->slot->p11card)\<close> of the
  init functions: the session with its card, when all three pointers are set.
\<close>

definition session_card ::
  "('d, 'p) sc_pkcs11_session option \<Rightarrow> (('d, 'p) sc_pkcs11_session \<times> 'd sc_pkcs11_card) option" where
  "session_card session_ptr =
     (case session_ptr of
        None \<Rightarrow> None
      | Some session \<Rightarrow>
          (case slot session of
             None \<Rightarrow> None
           | Some sl \<Rightarrow>
               (case slot_p11card sl of None \<Rightarrow> None | Some token \<Rightarrow> Some (session, token))))"

text \<open>
  \<^verbatim>\<open>_validate_key_type\<close>: the loop over the slots, from the slot the list starts with. The
  slot, an \<^verbatim>\<open>int\<close>, is converted to \<^verbatim>\<open>CK_KEY_TYPE\<close> for the comparison.
\<close>

fun validate_key_type_slots :: "cint list \<Rightarrow> CK_KEY_TYPE \<Rightarrow> CK_RV" where
  "validate_key_type_slots [] key_type = CKR_KEY_TYPE_INCONSISTENT"
| "validate_key_type_slots (k # ks) key_type =
     (if k <s 0 then CKR_KEY_TYPE_INCONSISTENT
      else if scast k = key_type then CKR_OK
      else validate_key_type_slots ks key_type)"

definition validate_key_type :: "'d sc_pkcs11_mechanism_type \<Rightarrow> CK_KEY_TYPE \<Rightarrow> CK_RV" where
  "validate_key_type mt key_type = validate_key_type_slots (key_types mt) key_type"

text \<open>
  The two copies every init function with parameters makes into the handle:
  \<^verbatim>\<open>memcpy(&operation->mechanism, pMechanism, sizeof(CK_MECHANISM))\<close> and, for a non-null
  parameter, \<^verbatim>\<open>memcpy(&operation->mechanism_params, pMechanism->pParameter,
  pMechanism->ulParameterLen)\<close>, after which the handle's parameter pointer is set to its
  own \<^verbatim>\<open>mechanism_params\<close>. The second copy runs past the union when the length exceeds
  its size.
\<close>

definition copy_mechanism ::
  "CK_MECHANISM \<Rightarrow> ('d, 'p) sc_pkcs11_operation \<Rightarrow> fault + ('d, 'p) sc_pkcs11_operation" where
  "copy_mechanism pMechanism op =
     (let op1 = op\<lparr>op_mechanism := pMechanism\<rparr>
      in case pParameter pMechanism of
           None \<Rightarrow> Inr op1
         | Some bytes \<Rightarrow>
             if length (mechanism_params op) < unat (ulParameterLen pMechanism)
             then Inl Out_of_bounds
             else
               let params = take (unat (ulParameterLen pMechanism)) bytes
                            @ drop (unat (ulParameterLen pMechanism)) (mechanism_params op)
               in Inr (op1\<lparr>mechanism_params := params,
                           op_mechanism := pMechanism\<lparr>pParameter := Some params\<rparr>\<rparr>))"

section \<open>The dispatchers\<close>

definition sc_pkcs11_md_init ::
  "('d, 'p) call_env \<Rightarrow> ('d, 'p) sc_pkcs11_session option \<Rightarrow> CK_MECHANISM \<Rightarrow>
     fault + (CK_RV \<times> ('d, 'p) sc_pkcs11_session option)" where
  "sc_pkcs11_md_init env session_ptr pMechanism =
     (case session_card session_ptr of
        None \<Rightarrow> Inr (CKR_ARGUMENTS_BAD, session_ptr)
      | Some (session, token) \<Rightarrow>
         (case sc_pkcs11_find_mechanism token (mechanism pMechanism) CKF_DIGEST of
            None \<Rightarrow> Inr (CKR_MECHANISM_INVALID, Some session)
          | Some (i, mt) \<Rightarrow>
             (case session_start_operation env session SC_PKCS11_OPERATION_DIGEST mt of
                Inl rv \<Rightarrow> Inr (int_cast rv, Some session)
              | Inr (session1, operation0) \<Rightarrow>
                 (case md_init mt of
                    None \<Rightarrow> Inl Null_call
                  | Some f \<Rightarrow>
                     (case call_op env f (operation0\<lparr>op_mechanism := pMechanism\<rparr>) of
                        (rv, operation1) \<Rightarrow>
                          let session2 = put_operation session1 SC_PKCS11_OPERATION_DIGEST operation1
                          in Inr (int_cast rv, Some (if rv \<noteq> CKR_OK
                                            then session_stop_operation session2 SC_PKCS11_OPERATION_DIGEST
                                            else session2)))))))"

definition sc_pkcs11_md_final ::
  "('d, 'p) call_env \<Rightarrow> ('d, 'p) sc_pkcs11_session \<Rightarrow> out_buffer \<Rightarrow>
     fault + (CK_RV \<times> ('d, 'p) sc_pkcs11_session \<times> out_buffer)" where
  "sc_pkcs11_md_final env session pData =
     (case session_get_operation session SC_PKCS11_OPERATION_DIGEST of
        Inl rv \<Rightarrow> Inr (int_cast rv, session, pData)
      | Inr op \<Rightarrow>
         (let pData1 = (if out_ptr pData = None then pData\<lparr>out_len := 0\<rparr> else pData)
          in case md_final (op_type op) of
               None \<Rightarrow> Inl Null_call
             | Some f \<Rightarrow>
                (case call_op_out env f op pData1 of
                   (rv, op1, pData2) \<Rightarrow>
                     let session1 = put_operation session SC_PKCS11_OPERATION_DIGEST op1
                     in if rv = CKR_BUFFER_TOO_SMALL
                        then Inr (if out_ptr pData = None then CKR_OK else CKR_BUFFER_TOO_SMALL,
                                  session1, pData2)
                        else Inr (int_cast rv, session_stop_operation session1 SC_PKCS11_OPERATION_DIGEST,
                                  pData2))))"

definition sc_pkcs11_sign_init ::
  "('d, 'p) call_env \<Rightarrow> ('d, 'p) sc_pkcs11_session option \<Rightarrow> CK_MECHANISM \<Rightarrow> sc_pkcs11_object \<Rightarrow>
     CK_KEY_TYPE \<Rightarrow> fault + (CK_RV \<times> ('d, 'p) sc_pkcs11_session option)" where
  "sc_pkcs11_sign_init env session_ptr pMechanism key key_type =
     (case session_card session_ptr of
        None \<Rightarrow> Inr (CKR_ARGUMENTS_BAD, session_ptr)
      | Some (session, token) \<Rightarrow>
         (case sc_pkcs11_find_mechanism token (mechanism pMechanism) CKF_SIGN of
            None \<Rightarrow> Inr (CKR_MECHANISM_INVALID, Some session)
          | Some (i, mt) \<Rightarrow>
             if validate_key_type mt key_type \<noteq> CKR_OK
             then Inr (int_cast (validate_key_type mt key_type), Some session)
             else if pParameter pMechanism \<noteq> None \<and>
                     sizeof_mechanism_params env < unat (ulParameterLen pMechanism)
             then Inr (CKR_ARGUMENTS_BAD, Some session)
             else
               (case session_start_operation env session SC_PKCS11_OPERATION_SIGN mt of
                  Inl rv \<Rightarrow> Inr (int_cast rv, Some session)
                | Inr (session1, operation0) \<Rightarrow>
                   (case copy_mechanism pMechanism operation0 of
                      Inl f \<Rightarrow> Inl f
                    | Inr operation1 \<Rightarrow>
                       (case sign_init mt of
                          None \<Rightarrow> Inl Null_call
                        | Some f \<Rightarrow>
                           (case call_op_key env f operation1 key of
                              (rv, operation2) \<Rightarrow>
                                let session2 = put_operation session1 SC_PKCS11_OPERATION_SIGN operation2
                                in Inr (int_cast rv, Some (if rv \<noteq> CKR_OK
                                                  then session_stop_operation session2 SC_PKCS11_OPERATION_SIGN
                                                  else session2))))))))"

definition sc_pkcs11_sign_final ::
  "('d, 'p) call_env \<Rightarrow> ('d, 'p) sc_pkcs11_session \<Rightarrow> out_buffer \<Rightarrow>
     fault + (CK_RV \<times> ('d, 'p) sc_pkcs11_session \<times> out_buffer)" where
  "sc_pkcs11_sign_final env session pSignature =
     (case session_get_operation session SC_PKCS11_OPERATION_SIGN of
        Inl rv \<Rightarrow> Inr (int_cast rv, session, pSignature)
      | Inr op \<Rightarrow>
         (case (case sign_final (op_type op) of
                  None \<Rightarrow> (CKR_KEY_TYPE_INCONSISTENT, op, pSignature)
                | Some f \<Rightarrow> call_op_out env f op pSignature) of
            (rv, op1, pSignature1) \<Rightarrow>
              let session1 = put_operation session SC_PKCS11_OPERATION_SIGN op1
              in Inr (int_cast rv,
                      if rv \<noteq> CKR_BUFFER_TOO_SMALL \<and> out_ptr pSignature \<noteq> None
                      then session_stop_operation session1 SC_PKCS11_OPERATION_SIGN
                      else session1,
                      pSignature1)))"

definition sc_pkcs11_verif_init ::
  "('d, 'p) call_env \<Rightarrow> ('d, 'p) sc_pkcs11_session option \<Rightarrow> CK_MECHANISM \<Rightarrow> sc_pkcs11_object \<Rightarrow>
     CK_KEY_TYPE \<Rightarrow> fault + (CK_RV \<times> ('d, 'p) sc_pkcs11_session option)" where
  "sc_pkcs11_verif_init env session_ptr pMechanism key key_type =
     (case session_card session_ptr of
        None \<Rightarrow> Inr (CKR_ARGUMENTS_BAD, session_ptr)
      | Some (session, token) \<Rightarrow>
         (case sc_pkcs11_find_mechanism token (mechanism pMechanism) CKF_VERIFY of
            None \<Rightarrow> Inr (CKR_MECHANISM_INVALID, Some session)
          | Some (i, mt) \<Rightarrow>
             if validate_key_type mt key_type \<noteq> CKR_OK
             then Inr (int_cast (validate_key_type mt key_type), Some session)
             else
               (case session_start_operation env session SC_PKCS11_OPERATION_VERIFY mt of
                  Inl rv \<Rightarrow> Inr (rv, Some session)
                | Inr (session1, operation0) \<Rightarrow>
                   (case copy_mechanism pMechanism operation0 of
                      Inl f \<Rightarrow> Inl f
                    | Inr operation1 \<Rightarrow>
                       (case verif_init mt of
                          None \<Rightarrow> Inl Null_call
                        | Some f \<Rightarrow>
                           (case call_op_key env f operation1 key of
                              (rv, operation2) \<Rightarrow>
                                let session2 = put_operation session1 SC_PKCS11_OPERATION_VERIFY operation2
                                in Inr (rv, Some (if rv \<noteq> CKR_OK
                                                  then session_stop_operation session2 SC_PKCS11_OPERATION_VERIFY
                                                  else session2))))))))"

definition sc_pkcs11_encr_init ::
  "('d, 'p) call_env \<Rightarrow> ('d, 'p) sc_pkcs11_session option \<Rightarrow> CK_MECHANISM \<Rightarrow> sc_pkcs11_object \<Rightarrow>
     CK_KEY_TYPE \<Rightarrow> fault + (CK_RV \<times> ('d, 'p) sc_pkcs11_session option)" where
  "sc_pkcs11_encr_init env session_ptr pMechanism key key_type =
     (case session_card session_ptr of
        None \<Rightarrow> Inr (CKR_ARGUMENTS_BAD, session_ptr)
      | Some (session, token) \<Rightarrow>
         (case sc_pkcs11_find_mechanism token (mechanism pMechanism) CKF_ENCRYPT of
            None \<Rightarrow> Inr (CKR_MECHANISM_INVALID, Some session)
          | Some (i, mt) \<Rightarrow>
             if validate_key_type mt key_type \<noteq> CKR_OK
             then Inr (int_cast (validate_key_type mt key_type), Some session)
             else
               (case session_start_operation env session SC_PKCS11_OPERATION_ENCRYPT mt of
                  Inl rv \<Rightarrow> Inr (rv, Some session)
                | Inr (session1, operation0) \<Rightarrow>
                   (case copy_mechanism pMechanism operation0 of
                      Inl f \<Rightarrow> Inl f
                    | Inr operation1 \<Rightarrow>
                       (case encrypt_init mt of
                          None \<Rightarrow> Inl Null_call
                        | Some f \<Rightarrow>
                           (case call_op_key env f operation1 key of
                              (rv, operation2) \<Rightarrow>
                                let session2 = put_operation session1 SC_PKCS11_OPERATION_ENCRYPT operation2
                                in if rv \<noteq> CKR_OK
                                   then Inr (int_cast rv, Some (session_stop_operation session2
                                                         SC_PKCS11_OPERATION_ENCRYPT))
                                   else
                                     (case init_params (ops key) of
                                        None \<Rightarrow> Inr (int_cast rv, Some session2)
                                      | Some validate \<Rightarrow>
                                          let rv1 = validate (op_mechanism operation2)
                                          in if rv1 \<noteq> CKR_OK
                                             then Inr (int_cast rv1, Some (session_stop_operation session2
                                                                    SC_PKCS11_OPERATION_ENCRYPT))
                                             else Inr (int_cast rv1, Some session2))))))))"

definition sc_pkcs11_encr ::
  "('d, 'p) call_env \<Rightarrow> ('d, 'p) sc_pkcs11_session \<Rightarrow> in_buffer \<Rightarrow> out_buffer \<Rightarrow>
     fault + (CK_RV \<times> ('d, 'p) sc_pkcs11_session \<times> out_buffer)" where
  "sc_pkcs11_encr env session pData pEncryptedData =
     (case session_get_operation session SC_PKCS11_OPERATION_ENCRYPT of
        Inl rv \<Rightarrow> Inr (rv, session, pEncryptedData)
      | Inr op \<Rightarrow>
         (case encrypt_oneshot (op_type op) of
            None \<Rightarrow> Inl Null_call
          | Some f \<Rightarrow>
             (case call_op_in_out env f op pData pEncryptedData of
                (rv, op1, pEncryptedData1) \<Rightarrow>
                  let session1 = put_operation session SC_PKCS11_OPERATION_ENCRYPT op1
                  in if out_ptr pEncryptedData = None \<and> rv = CKR_OK
                     then Inr (CKR_OK, session1, pEncryptedData1)
                     else if out_ptr pEncryptedData \<noteq> None \<and> rv = CKR_BUFFER_TOO_SMALL
                     then Inr (CKR_BUFFER_TOO_SMALL, session1, pEncryptedData1)
                     else Inr (int_cast rv, session_stop_operation session1 SC_PKCS11_OPERATION_ENCRYPT,
                               pEncryptedData1))))"

definition sc_pkcs11_encr_final ::
  "('d, 'p) call_env \<Rightarrow> ('d, 'p) sc_pkcs11_session \<Rightarrow> out_buffer \<Rightarrow>
     fault + (CK_RV \<times> ('d, 'p) sc_pkcs11_session \<times> out_buffer)" where
  "sc_pkcs11_encr_final env session pEncryptedData =
     (case session_get_operation session SC_PKCS11_OPERATION_ENCRYPT of
        Inl rv \<Rightarrow> Inr (rv, session, pEncryptedData)
      | Inr op \<Rightarrow>
         (case encrypt_final (op_type op) of
            None \<Rightarrow> Inl Null_call
          | Some f \<Rightarrow>
             (case call_op_out env f op pEncryptedData of
                (rv, op1, pEncryptedData1) \<Rightarrow>
                  let session1 = put_operation session SC_PKCS11_OPERATION_ENCRYPT op1
                  in if out_ptr pEncryptedData = None \<and> rv = CKR_OK
                     then Inr (CKR_OK, session1, pEncryptedData1)
                     else if out_ptr pEncryptedData \<noteq> None \<and> rv = CKR_BUFFER_TOO_SMALL
                     then Inr (CKR_BUFFER_TOO_SMALL, session1, pEncryptedData1)
                     else Inr (int_cast rv, session_stop_operation session1 SC_PKCS11_OPERATION_ENCRYPT,
                               pEncryptedData1))))"

text \<open>
  \<^verbatim>\<open>sc_pkcs11_decr_init\<close>: the answer of the decrypt-init hook is overwritten by the answer
  of the key's parameter validation when the key has that hook, and a failed validation
  returns at once, through \<^verbatim>\<open>LOG_FUNC_RETURN\<close>. The last return is a plain
  \<^verbatim>\<open>return rv\<close>, not narrowed, like the returns of \<^verbatim>\<open>sc_pkcs11_decr\<close> and those
  after the key-type check in \<^verbatim>\<open>sc_pkcs11_verif_init\<close> and in the wrap, unwrap and derive
  calls.
\<close>

definition sc_pkcs11_decr_init ::
  "('d, 'p) call_env \<Rightarrow> ('d, 'p) sc_pkcs11_session option \<Rightarrow> CK_MECHANISM \<Rightarrow> sc_pkcs11_object \<Rightarrow>
     CK_KEY_TYPE \<Rightarrow> fault + (CK_RV \<times> ('d, 'p) sc_pkcs11_session option)" where
  "sc_pkcs11_decr_init env session_ptr pMechanism key key_type =
     (case session_card session_ptr of
        None \<Rightarrow> Inr (CKR_ARGUMENTS_BAD, session_ptr)
      | Some (session, token) \<Rightarrow>
         (case sc_pkcs11_find_mechanism token (mechanism pMechanism) CKF_DECRYPT of
            None \<Rightarrow> Inr (CKR_MECHANISM_INVALID, Some session)
          | Some (i, mt) \<Rightarrow>
             if validate_key_type mt key_type \<noteq> CKR_OK
             then Inr (int_cast (validate_key_type mt key_type), Some session)
             else
               (case session_start_operation env session SC_PKCS11_OPERATION_DECRYPT mt of
                  Inl rv \<Rightarrow> Inr (rv, Some session)
                | Inr (session1, operation0) \<Rightarrow>
                   (case copy_mechanism pMechanism operation0 of
                      Inl f \<Rightarrow> Inl f
                    | Inr operation1 \<Rightarrow>
                       (case decrypt_init mt of
                          None \<Rightarrow> Inl Null_call
                        | Some f \<Rightarrow>
                           (case call_op_key env f operation1 key of
                              (rv, operation2) \<Rightarrow>
                                let session2 = put_operation session1 SC_PKCS11_OPERATION_DECRYPT operation2
                                in case init_params (ops key) of
                                     Some validate \<Rightarrow>
                                       let rv1 = validate (op_mechanism operation2)
                                       in if rv1 \<noteq> CKR_OK then Inr (int_cast rv1, Some session2)
                                          else Inr (rv1, Some (if rv1 \<noteq> CKR_OK
                                                               then session_stop_operation session2
                                                                      SC_PKCS11_OPERATION_DECRYPT
                                                               else session2))
                                   | None \<Rightarrow>
                                       Inr (rv, Some (if rv \<noteq> CKR_OK
                                                      then session_stop_operation session2
                                                             SC_PKCS11_OPERATION_DECRYPT
                                                      else session2))))))))"

definition sc_pkcs11_decr ::
  "('d, 'p) call_env \<Rightarrow> ('d, 'p) sc_pkcs11_session \<Rightarrow> in_buffer \<Rightarrow> out_buffer \<Rightarrow>
     fault + (CK_RV \<times> ('d, 'p) sc_pkcs11_session \<times> out_buffer)" where
  "sc_pkcs11_decr env session pEncryptedData pData =
     (case session_get_operation session SC_PKCS11_OPERATION_DECRYPT of
        Inl rv \<Rightarrow> Inr (rv, session, pData)
      | Inr op \<Rightarrow>
         (case decrypt_oneshot (op_type op) of
            None \<Rightarrow> Inl Null_call
          | Some f \<Rightarrow>
             (case call_op_in_out env f op pEncryptedData pData of
                (rv, op1, pData1) \<Rightarrow>
                  let session1 = put_operation session SC_PKCS11_OPERATION_DECRYPT op1
                  in Inr (rv,
                          if rv \<noteq> CKR_BUFFER_TOO_SMALL \<and> out_ptr pData \<noteq> None
                          then session_stop_operation session1 SC_PKCS11_OPERATION_DECRYPT
                          else session1,
                          pData1))))"

definition sc_pkcs11_decr_final ::
  "('d, 'p) call_env \<Rightarrow> ('d, 'p) sc_pkcs11_session \<Rightarrow> out_buffer \<Rightarrow>
     fault + (CK_RV \<times> ('d, 'p) sc_pkcs11_session \<times> out_buffer)" where
  "sc_pkcs11_decr_final env session pData =
     (case session_get_operation session SC_PKCS11_OPERATION_DECRYPT of
        Inl rv \<Rightarrow> Inr (rv, session, pData)
      | Inr op \<Rightarrow>
         (case decrypt_final (op_type op) of
            None \<Rightarrow> Inl Null_call
          | Some f \<Rightarrow>
             (case call_op_out env f op pData of
                (rv, op1, pData1) \<Rightarrow>
                  let session1 = put_operation session SC_PKCS11_OPERATION_DECRYPT op1
                  in if out_ptr pData = None \<and> rv = CKR_OK
                     then Inr (CKR_OK, session1, pData1)
                     else if out_ptr pData \<noteq> None \<and> rv = CKR_BUFFER_TOO_SMALL
                     then Inr (CKR_BUFFER_TOO_SMALL, session1, pData1)
                     else Inr (int_cast rv, session_stop_operation session1 SC_PKCS11_OPERATION_DECRYPT,
                               pData1))))"

definition sc_pkcs11_wrap ::
  "('d, 'p) call_env \<Rightarrow> ('d, 'p) sc_pkcs11_session option \<Rightarrow> CK_MECHANISM \<Rightarrow> sc_pkcs11_object \<Rightarrow>
     CK_KEY_TYPE \<Rightarrow> sc_pkcs11_object \<Rightarrow> out_buffer \<Rightarrow>
     fault + (CK_RV \<times> ('d, 'p) sc_pkcs11_session option \<times> out_buffer)" where
  "sc_pkcs11_wrap env session_ptr pMechanism wrappingKey key_type targetKey wrappedData =
     (case session_card session_ptr of
        None \<Rightarrow> Inr (CKR_ARGUMENTS_BAD, session_ptr, wrappedData)
      | Some (session, token) \<Rightarrow>
         (case sc_pkcs11_find_mechanism token (mechanism pMechanism) CKF_UNWRAP of
            None \<Rightarrow> Inr (CKR_MECHANISM_INVALID, Some session, wrappedData)
          | Some (i, mt) \<Rightarrow>
             if validate_key_type mt key_type \<noteq> CKR_OK
             then Inr (int_cast (validate_key_type mt key_type), Some session, wrappedData)
             else
               (case session_start_operation env session SC_PKCS11_OPERATION_WRAP mt of
                  Inl rv \<Rightarrow> Inr (rv, Some session, wrappedData)
                | Inr (session1, operation0) \<Rightarrow>
                   (case wrap (op_type operation0) of
                      None \<Rightarrow> Inl Null_call
                    | Some f \<Rightarrow>
                       (case call_wrap env f (operation0\<lparr>op_mechanism := pMechanism\<rparr>)
                               wrappingKey targetKey wrappedData of
                          (rv, operation1, wrappedData1) \<Rightarrow>
                            Inr (rv,
                                 Some (session_stop_operation
                                         (put_operation session1 SC_PKCS11_OPERATION_WRAP operation1)
                                         SC_PKCS11_OPERATION_WRAP),
                                 wrappedData1))))))"

definition sc_pkcs11_unwrap ::
  "('d, 'p) call_env \<Rightarrow> ('d, 'p) sc_pkcs11_session option \<Rightarrow> CK_MECHANISM \<Rightarrow> sc_pkcs11_object \<Rightarrow>
     CK_KEY_TYPE \<Rightarrow> in_buffer \<Rightarrow> sc_pkcs11_object \<Rightarrow>
     fault + (CK_RV \<times> ('d, 'p) sc_pkcs11_session option)" where
  "sc_pkcs11_unwrap env session_ptr pMechanism unwrappingKey key_type pWrappedKey targetKey =
     (case session_card session_ptr of
        None \<Rightarrow> Inr (CKR_ARGUMENTS_BAD, session_ptr)
      | Some (session, token) \<Rightarrow>
         (case sc_pkcs11_find_mechanism token (mechanism pMechanism) CKF_UNWRAP of
            None \<Rightarrow> Inr (CKR_MECHANISM_INVALID, Some session)
          | Some (i, mt) \<Rightarrow>
             if validate_key_type mt key_type \<noteq> CKR_OK
             then Inr (int_cast (validate_key_type mt key_type), Some session)
             else
               (case session_start_operation env session SC_PKCS11_OPERATION_UNWRAP mt of
                  Inl rv \<Rightarrow> Inr (rv, Some session)
                | Inr (session1, operation0) \<Rightarrow>
                   (case unwrap (op_type operation0) of
                      None \<Rightarrow> Inl Null_call
                    | Some f \<Rightarrow>
                       (case call_unwrap env f (operation0\<lparr>op_mechanism := pMechanism\<rparr>)
                               unwrappingKey pWrappedKey targetKey of
                          (rv, operation1) \<Rightarrow>
                            Inr (rv,
                                 Some (session_stop_operation
                                         (put_operation session1 SC_PKCS11_OPERATION_UNWRAP operation1)
                                         SC_PKCS11_OPERATION_UNWRAP)))))))"

text \<open>
  \<^verbatim>\<open>sc_pkcs11_deri\<close>. The derive hook is called twice: with a null buffer for the length,
  then with a zeroed buffer of that length (of 8 bytes when the length is 0). The result
  carries the value handed to the \<^verbatim>\<open>set_attribute\<close> hook of the destination key, if any.
\<close>

definition sc_pkcs11_deri ::
  "('d, 'p) call_env \<Rightarrow> ('d, 'p) sc_pkcs11_session option \<Rightarrow> CK_MECHANISM \<Rightarrow> sc_pkcs11_object \<Rightarrow>
     CK_KEY_TYPE \<Rightarrow>
     fault + (CK_RV \<times> ('d, 'p) sc_pkcs11_session option \<times> CK_BYTE list option)" where
  "sc_pkcs11_deri env session_ptr pMechanism basekey key_type =
     (case session_card session_ptr of
        None \<Rightarrow> Inr (CKR_ARGUMENTS_BAD, session_ptr, None)
      | Some (session, token) \<Rightarrow>
         (case sc_pkcs11_find_mechanism token (mechanism pMechanism) CKF_DERIVE of
            None \<Rightarrow> Inr (CKR_MECHANISM_INVALID, Some session, None)
          | Some (i, mt) \<Rightarrow>
             if validate_key_type mt key_type \<noteq> CKR_OK
             then Inr (int_cast (validate_key_type mt key_type), Some session, None)
             else
               (case session_start_operation env session SC_PKCS11_OPERATION_DERIVE mt of
                  Inl rv \<Rightarrow> Inr (rv, Some session, None)
                | Inr (session1, operation0) \<Rightarrow>
                   (case derive (op_type operation0) of
                      None \<Rightarrow> Inl Null_call
                    | Some f \<Rightarrow>
                       (case call_derive env f (operation0\<lparr>op_mechanism := pMechanism\<rparr>) basekey
                               (pParameter pMechanism, ulParameterLen pMechanism)
                               \<lparr>out_ptr = None, out_len = 0\<rparr> of
                          (rv, operation1, probe) \<Rightarrow>
                            let stopped = (\<lambda>op. Some (session_stop_operation
                                            (put_operation session1 SC_PKCS11_OPERATION_DERIVE op)
                                            SC_PKCS11_OPERATION_DERIVE))
                            in if rv \<noteq> CKR_OK then Inr (rv, stopped operation1, None)
                               else if \<not> calloc_succeeds env
                               then Inr (CKR_HOST_MEMORY, stopped operation1, None)
                               else
                                 let keybuf = replicate (if 0 < out_len probe
                                                         then unat (out_len probe) else 8) 0
                                 in case call_derive env f operation1 basekey
                                           (pParameter pMechanism, ulParameterLen pMechanism)
                                           \<lparr>out_ptr = Some keybuf, out_len = out_len probe\<rparr> of
                                      (rv1, operation2, derived) \<Rightarrow>
                                        if rv1 \<noteq> CKR_OK then Inr (rv1, stopped operation2, None)
                                        else if 0 < out_len derived
                                        then Inr (rv1, stopped operation2,
                                                  map_option (take (unat (out_len derived)))
                                                    (out_ptr derived))
                                        else Inr (rv1, stopped operation2, None))))))"

subsection \<open>A session on a small token\<close>

text \<open>
  A token with one mechanism for signing, verifying, encrypting and decrypting with an RSA
  key, one wrapping-only and one unwrapping-only mechanism; an environment in which every
  hook answers the same code and leaves the handle and the caller's buffer alone, with a
  \<^verbatim>\<open>mechanism_params\<close> union of 16 bytes; a key without hooks and a key whose
  parameter validation answers a given code.
\<close>

definition crypt_info :: CK_MECHANISM_INFO where
  "crypt_info = \<lparr>ulMinKeySize = 1024, ulMaxKeySize = 4096, flags = 0x2B00\<rparr>"

definition wrap_info :: CK_MECHANISM_INFO where
  "wrap_info = \<lparr>ulMinKeySize = 128, ulMaxKeySize = 256, flags = 0x20000\<rparr>"

definition unwrap_info :: CK_MECHANISM_INFO where
  "unwrap_info = \<lparr>ulMinKeySize = 128, ulMaxKeySize = 256, flags = 0x40000\<rparr>"

definition token_card :: "nat sc_pkcs11_card" where
  "token_card =
     \<lparr>mechanisms =
        [sc_pkcs11_new_fw_mechanism True 2 96 1 crypt_info CKK_RSA None None None,
         sc_pkcs11_new_fw_mechanism True 2 96 7 wrap_info CKK_RSA None None None,
         sc_pkcs11_new_fw_mechanism True 2 96 8 unwrap_info CKK_RSA None None None]\<rparr>"

definition fresh_session :: "(nat, nat) sc_pkcs11_session" where
  "fresh_session = \<lparr>slot = Some \<lparr>slot_p11card = Some token_card\<rparr>, operation = (\<lambda>kind. None)\<rparr>"

definition answering :: "CK_RV \<Rightarrow> (nat, nat) call_env" where
  "answering rv =
     \<lparr>call_op = (\<lambda>f op. (rv, op)),
      call_op_key = (\<lambda>f op key. (rv, op)),
      call_op_out = (\<lambda>f op out. (rv, op, out)),
      call_op_in_out = (\<lambda>f op inp out. (rv, op, out)),
      call_wrap = (\<lambda>f op key target out. (rv, op, out)),
      call_unwrap = (\<lambda>f op key inp target. (rv, op)),
      call_derive = (\<lambda>f op key inp out. (rv, op, out)),
      sizeof_mechanism_params = 16,
      start_operation_answer = CKR_OK,
      calloc_succeeds = True\<rparr>"

definition plain_key :: sc_pkcs11_object where
  "plain_key =
     \<lparr>ops = \<lparr>can_do = None, init_params = None, get_attribute = (\<lambda>a. (CKR_OK, 0)),
             sign = (\<lambda>m inp out. (CKR_OK, out))\<rparr>\<rparr>"

definition validating_key :: "CK_RV \<Rightarrow> sc_pkcs11_object" where
  "validating_key rv =
     \<lparr>ops = \<lparr>can_do = None, init_params = Some (\<lambda>m. rv), get_attribute = (\<lambda>a. (CKR_OK, 0)),
             sign = (\<lambda>m inp out. (CKR_OK, out))\<rparr>\<rparr>"

definition mechanism_1 :: CK_MECHANISM where
  "mechanism_1 = \<lparr>mechanism = 1, pParameter = None, ulParameterLen = 0\<rparr>"

definition null_buffer :: out_buffer where
  "null_buffer = \<lparr>out_ptr = None, out_len = 0\<rparr>"

definition one_byte_buffer :: out_buffer where
  "one_byte_buffer = \<lparr>out_ptr = Some [0], out_len = 1\<rparr>"

text \<open>The handle that a start request installs for the first mechanism of the token.\<close>

definition crypt_handle :: "(nat, nat) sc_pkcs11_operation" where
  "crypt_handle =
     \<lparr>op_type = the (sc_pkcs11_new_fw_mechanism True 2 96 1 crypt_info CKK_RSA None None None),
      op_mechanism = mechanism_1,
      mechanism_params = replicate 16 0,
      priv_data = None\<rparr>"

text \<open>
  A digest descriptor as another file registers it, the handle bound to it, and a session
  in which an operation of each of the sign, encrypt, decrypt and digest families is
  installed.
\<close>

definition digest_type :: "nat sc_pkcs11_mechanism_type" where
  "digest_type =
     (calloc_mechanism_type 2)
       \<lparr>mech := 2, mech_info := \<lparr>ulMinKeySize = 0, ulMaxKeySize = 0, flags = 0x400\<rparr>,
        key_types := [- 1, 0], obj_size := 128,
        md_init := Some (Extern 1), md_update := Some (Extern 2), md_final := Some (Extern 3)\<rparr>"

definition digest_handle :: "(nat, nat) sc_pkcs11_operation" where
  "digest_handle =
     \<lparr>op_type = digest_type,
      op_mechanism = \<lparr>mechanism = 2, pParameter = None, ulParameterLen = 0\<rparr>,
      mechanism_params = replicate 16 0,
      priv_data = None\<rparr>"

definition busy_session :: "(nat, nat) sc_pkcs11_session" where
  "busy_session =
     fresh_session
       \<lparr>operation :=
          (\<lambda>kind. None)
            (SC_PKCS11_OPERATION_SIGN \<mapsto> crypt_handle,
             SC_PKCS11_OPERATION_ENCRYPT \<mapsto> crypt_handle,
             SC_PKCS11_OPERATION_DECRYPT \<mapsto> crypt_handle,
             SC_PKCS11_OPERATION_DIGEST \<mapsto> digest_handle)\<rparr>"

definition mechanism_7 :: CK_MECHANISM where
  "mechanism_7 = \<lparr>mechanism = 7, pParameter = None, ulParameterLen = 0\<rparr>"

definition mechanism_8 :: CK_MECHANISM where
  "mechanism_8 = \<lparr>mechanism = 8, pParameter = None, ulParameterLen = 0\<rparr>"

definition oversize_mechanism :: CK_MECHANISM where
  "oversize_mechanism = \<lparr>mechanism = 1, pParameter = Some (replicate 17 0), ulParameterLen = 17\<rparr>"

section \<open>Hash-then-sign composition and the accumulated data\<close>

text \<open>
  \<^verbatim>\<open>struct hash_signature_info\<close>, the private data of a composed descriptor. \<open>hash_type\<close>
  is the digest descriptor it points to; the field \<^verbatim>\<open>mech\<close> is \<open>info_mech\<close> here.
\<close>

record 'h hash_signature_info =
  info_mech :: CK_MECHANISM_TYPE
  hash_mech :: CK_MECHANISM_TYPE
  sign_mech :: CK_MECHANISM_TYPE
  hash_type :: "'h sc_pkcs11_mechanism_type"

text \<open>
  \<^verbatim>\<open>struct operation_data\<close>, the private state of a sign, verify or decrypt operation; its
  fields \<^verbatim>\<open>key\<close>, \<^verbatim>\<open>info\<close> and \<^verbatim>\<open>md\<close> are \<open>data_key\<close>, \<open>data_info\<close> and \<open>data_md\<close>
  here. \<open>buffer\<close> is the address of a block of secure memory, or null.
\<close>

record ('h, 'c) operation_data =
  data_key :: sc_pkcs11_object
  data_info :: "'h hash_signature_info option"
  data_md :: "('h, 'c) sc_pkcs11_operation option"
  buffer :: "nat option"
  buffer_len :: uint

text \<open>
  Memory as these functions see it: the live blocks of secure memory by address, the
  address the next block gets, and the record of what was allocated and released, in
  order.
\<close>

datatype mem_event =
    Data_allocated
  | Data_freed
  | Operation_released
  | Buffer_allocated nat nat
  | Buffer_cleared_freed "nat option" nat

record memory =
  blocks :: "nat \<rightharpoonup> CK_BYTE list"
  next_block :: nat
  trace :: "mem_event list"

text \<open>
  Modelled from the spec: \<^verbatim>\<open>sc_mem_secure_alloc\<close> and \<^verbatim>\<open>sc_mem_secure_clear_free\<close> are
  functions of another file. The spec has the accumulator as one ``that zeroes and frees
  previous contents on every reallocation'': an allocation gives a fresh block or null, a
  release of a non-null pointer zeroes the block and takes it from the live blocks.
\<close>

definition sc_mem_secure_alloc :: "bool \<Rightarrow> memory \<Rightarrow> nat \<Rightarrow> nat option \<times> memory" where
  "sc_mem_secure_alloc alloc_ok mem len =
     (if alloc_ok
      then (Some (next_block mem),
            mem\<lparr>blocks := (blocks mem)(next_block mem \<mapsto> replicate len 0),
                next_block := Suc (next_block mem),
                trace := trace mem @ [Buffer_allocated (next_block mem) len]\<rparr>)
      else (None, mem))"

definition sc_mem_secure_clear_free :: "memory \<Rightarrow> nat option \<Rightarrow> nat \<Rightarrow> memory" where
  "sc_mem_secure_clear_free mem ptr len =
     (case ptr of
        None \<Rightarrow> mem\<lparr>trace := trace mem @ [Buffer_cleared_freed None len]\<rparr>
      | Some a \<Rightarrow>
          mem\<lparr>blocks := (blocks mem)(a := None),
              trace := trace mem @ [Buffer_cleared_freed (Some a) len]\<rparr>)"

text \<open>
  The environment of the composer: what the hooks of the nested digest operation do, and
  whether the allocations succeed.
\<close>

record ('h, 'c) composer_env =
  md_call_op :: "fnptr \<Rightarrow> ('h, 'c) sc_pkcs11_operation \<Rightarrow> CK_RV \<times> ('h, 'c) sc_pkcs11_operation"
  md_call_op_in ::
    "fnptr \<Rightarrow> ('h, 'c) sc_pkcs11_operation \<Rightarrow> in_buffer \<Rightarrow> CK_RV \<times> ('h, 'c) sc_pkcs11_operation"
  md_call_op_out ::
    "fnptr \<Rightarrow> ('h, 'c) sc_pkcs11_operation \<Rightarrow> out_buffer \<Rightarrow>
       CK_RV \<times> ('h, 'c) sc_pkcs11_operation \<times> out_buffer"
  data_calloc_ok :: bool
  md_calloc_ok :: bool
  secure_alloc_ok :: bool
  md_params_size :: nat




text \<open>
  \<^verbatim>\<open>signature_data_buffer_append\<close>. The new length is an \<^verbatim>\<open>unsigned int\<close>: the sum of
  the old length and the \<^verbatim>\<open>CK_ULONG\<close> chunk length, narrowed. The two copies write
  \<open>buffer_len\<close> and then \<open>in_len\<close> bytes into the new block of \<open>new_len\<close> bytes; the
  caller's pointer, when not null, addresses the bytes given, and the second copy reads
  \<open>in_len\<close> of them.
\<close>

definition signature_data_buffer_append ::
  "('h, 'c) composer_env \<Rightarrow> memory \<Rightarrow> ('h, 'c) operation_data option \<Rightarrow> in_buffer \<Rightarrow>
     fault + (CK_RV \<times> memory \<times> ('h, 'c) operation_data option)" where
  "signature_data_buffer_append env mem data_ptr inp =
     (case data_ptr of
        None \<Rightarrow> Inr (CKR_ARGUMENTS_BAD, mem, None)
      | Some data \<Rightarrow>
         (case inp of
            (in_ptr, in_len) \<Rightarrow>
              if in_len = 0 then Inr (CKR_OK, mem, Some data)
              else
                let new_len = (ucast (ucast (buffer_len data) + in_len) :: uint)
                in case sc_mem_secure_alloc (secure_alloc_ok env) mem (unat new_len) of
                     (None, mem1) \<Rightarrow> Inr (CKR_HOST_MEMORY, mem1, Some data)
                   | (Some new_buffer, mem1) \<Rightarrow>
                      (case (if buffer_len data \<noteq> 0
                             then (case buffer data of
                                     None \<Rightarrow> Inl Null_dereference
                                   | Some old \<Rightarrow>
                                      (case blocks mem1 old of
                                         None \<Rightarrow> Inl Invalid_read
                                       | Some bytes \<Rightarrow>
                                           if unat new_len < unat (buffer_len data)
                                           then Inl Out_of_bounds
                                           else Inr (take (unat (buffer_len data)) bytes)))
                             else Inr []) of
                         Inl f \<Rightarrow> Inl f
                       | Inr old_bytes \<Rightarrow>
                          (case in_ptr of
                             None \<Rightarrow> Inl Null_dereference
                           | Some in_bytes \<Rightarrow>
                               if unat new_len < unat (buffer_len data) + unat in_len \<or>
                                  length in_bytes < unat in_len
                               then Inl Out_of_bounds
                               else
                                 let mem2 = mem1\<lparr>blocks := (blocks mem1)
                                              (new_buffer \<mapsto> old_bytes @ take (unat in_len) in_bytes)\<rparr>;
                                     mem3 = sc_mem_secure_clear_free mem2 (buffer data)
                                              (unat (buffer_len data))
                                 in Inr (CKR_OK, mem3,
                                         Some (data\<lparr>buffer := Some new_buffer,
                                                     buffer_len := new_len\<rparr>))))))"


text \<open>
  \<^verbatim>\<open>sc_pkcs11_signature_update\<close> and \<^verbatim>\<open>sc_pkcs11_verify_update\<close>: with a nested digest
  handle the chunk goes to its update hook, otherwise it is appended to the raw data.
\<close>

definition sc_pkcs11_signature_update ::
  "('h, 'c) composer_env \<Rightarrow> memory \<Rightarrow>
     ('d, ('h, 'c) operation_data) sc_pkcs11_operation \<Rightarrow> in_buffer \<Rightarrow>
     fault + (CK_RV \<times> memory \<times> ('d, ('h, 'c) operation_data) sc_pkcs11_operation)" where
  "sc_pkcs11_signature_update env mem op pPart =
     (case priv_data op of
        None \<Rightarrow> Inl Null_dereference
      | Some data \<Rightarrow>
         (case data_md data of
            Some md \<Rightarrow>
              (case md_update (op_type md) of
                 None \<Rightarrow> Inl Null_call
               | Some f \<Rightarrow>
                  (case md_call_op_in env f md pPart of
                     (rv, md1) \<Rightarrow>
                       Inr (int_cast rv, mem,
                            op\<lparr>priv_data := Some (data\<lparr>data_md := Some md1\<rparr>)\<rparr>)))
          | None \<Rightarrow>
              (case signature_data_buffer_append env mem (Some data) pPart of
                 Inl f \<Rightarrow> Inl f
               | Inr (rv, mem1, data1) \<Rightarrow> Inr (int_cast rv, mem1, op\<lparr>priv_data := data1\<rparr>))))"

definition sc_pkcs11_verify_update ::
  "('h, 'c) composer_env \<Rightarrow> memory \<Rightarrow>
     ('d, ('h, 'c) operation_data) sc_pkcs11_operation \<Rightarrow> in_buffer \<Rightarrow>
     fault + (CK_RV \<times> memory \<times> ('d, ('h, 'c) operation_data) sc_pkcs11_operation)" where
  "sc_pkcs11_verify_update env mem op pPart =
     (case priv_data op of
        None \<Rightarrow> Inl Null_dereference
      | Some data \<Rightarrow>
         (case data_md data of
            Some md \<Rightarrow>
              (case md_update (op_type md) of
                 None \<Rightarrow> Inl Null_call
               | Some f \<Rightarrow>
                  (case md_call_op_in env f md pPart of
                     (rv, md1) \<Rightarrow>
                       Inr (rv, mem, op\<lparr>priv_data := Some (data\<lparr>data_md := Some md1\<rparr>)\<rparr>)))
          | None \<Rightarrow>
              (case signature_data_buffer_append env mem (Some data) pPart of
                 Inl f \<Rightarrow> Inl f
               | Inr (rv, mem1, data1) \<Rightarrow> Inr (int_cast rv, mem1, op\<lparr>priv_data := data1\<rparr>))))"








text \<open>
  \<^verbatim>\<open>sc_pkcs11_signature_size\<close>. The key answers the attribute \<^verbatim>\<open>CKA_KEY_TYPE\<close> and then
  \<^verbatim>\<open>CKA_MODULUS_BITS\<close>, the latter straight into \<^verbatim>\<open>*pLength\<close>; a failed query leaves
  \<^verbatim>\<open>*pLength\<close> as it was. The arithmetic is that of \<^verbatim>\<open>CK_ULONG\<close>.
\<close>

definition sc_pkcs11_signature_size ::
  "('d, ('h, 'c) operation_data) sc_pkcs11_operation \<Rightarrow> CK_ULONG \<Rightarrow> fault + (CK_RV \<times> CK_ULONG)" where
  "sc_pkcs11_signature_size op pLength =
     (case priv_data op of
        None \<Rightarrow> Inl Null_dereference
      | Some data \<Rightarrow>
         (let key = data_key data
          in case get_attribute (ops key) CKA_KEY_TYPE of
               (rv, key_type) \<Rightarrow>
                 if rv = CKR_OK then
                   (if key_type = CKK_RSA then
                      (case get_attribute (ops key) CKA_MODULUS_BITS of
                         (rv1, bits) \<Rightarrow>
                           if rv1 = CKR_OK then Inr (int_cast rv1, (bits + 7) div 8)
                           else Inr (int_cast rv1, pLength))
                    else if key_type = CKK_EC \<or> key_type = CKK_EC_EDWARDS \<or>
                            key_type = CKK_EC_MONTGOMERY then
                      (case get_attribute (ops key) CKA_MODULUS_BITS of
                         (rv1, bits) \<Rightarrow>
                           if rv1 = CKR_OK then Inr (int_cast rv1, ((bits + 7) div 8) * 2)
                           else Inr (int_cast rv1, pLength))
                    else if key_type = CKK_GOSTR3410 then
                      (case get_attribute (ops key) CKA_MODULUS_BITS of
                         (rv1, bits) \<Rightarrow>
                           if rv1 = CKR_OK then Inr (int_cast rv1, (bits + 7) div 8 * 2)
                           else Inr (int_cast rv1, pLength))
                    else Inr (int_cast CKR_MECHANISM_INVALID, pLength))
                 else Inr (int_cast rv, pLength)))"

subsection \<open>What a key answers, and a composed operation\<close>



text \<open>
  The operation data right after its allocation, and the memory after an operation data
  without digest handle and without buffer was allocated and released again.
\<close>

definition fresh_data :: "sc_pkcs11_object \<Rightarrow> ('h, 'c) operation_data" where
  "fresh_data key =
     \<lparr>data_key = key, data_info = None, data_md = None, buffer = None, buffer_len = 0\<rparr>"



text \<open>
  A composed descriptor (mechanism 0x40: mechanism 1 over the digest mechanism 2) as
  \<^verbatim>\<open>sc_pkcs11_register_sign_and_hash_mechanism\<close> has it built, a handle bound to it, keys
  whose capability query answers a given code and whose sign hook answers \<open>CKR_OK\<close> and
  gives back the data it was handed, and an environment whose digest hooks answer
  \<open>CKR_OK\<close>.
\<close>

definition composed_type :: "nat hash_signature_info sc_pkcs11_mechanism_type" where
  "composed_type =
     the (sc_pkcs11_new_fw_mechanism True 2 96 0x40 sign_info CKK_RSA
            (Some \<lparr>info_mech = 0x40, hash_mech = 2, sign_mech = 1, hash_type = digest_type\<rparr>)
            (Some Fn_free_info) (Some Fn_copy_hash_signature_info))"

definition composed_handle ::
  "(nat hash_signature_info, (nat, nat) operation_data) sc_pkcs11_operation" where
  "composed_handle =
     \<lparr>op_type = composed_type,
      op_mechanism = \<lparr>mechanism = 0x40, pParameter = None, ulParameterLen = 0\<rparr>,
      mechanism_params = replicate 16 0,
      priv_data = None\<rparr>"


definition digest_env :: "(nat, nat) composer_env" where
  "digest_env =
     \<lparr>md_call_op = (\<lambda>f md. (CKR_OK, md)),
      md_call_op_in = (\<lambda>f md inp. (CKR_OK, md)),
      md_call_op_out = (\<lambda>f md out. (CKR_OK, md, out)),
      data_calloc_ok = True, md_calloc_ok = True, secure_alloc_ok = True,
      md_params_size = 16\<rparr>"

definition empty_memory :: memory where
  "empty_memory = \<lparr>blocks = (\<lambda>a. None), next_block = 0, trace = []\<rparr>"

text \<open>
  A key that answers a key type and a number of bits, and a sign handle whose operation
  data holds that key and has no digest handle.
\<close>

definition attribute_key :: "CK_KEY_TYPE \<Rightarrow> CK_ULONG \<Rightarrow> sc_pkcs11_object" where
  "attribute_key kt bits =
     \<lparr>ops = \<lparr>can_do = None, init_params = None,
             get_attribute = (\<lambda>a. if a = CKA_KEY_TYPE then (CKR_OK, kt)
                                   else if a = CKA_MODULUS_BITS then (CKR_OK, bits)
                                   else (CKR_ATTRIBUTE_TYPE_INVALID, 0)),
             sign = (\<lambda>m inp out. (CKR_OK, out))\<rparr>\<rparr>"

text \<open>A key that answers its key type and no other attribute.\<close>

definition typed_key :: "CK_KEY_TYPE \<Rightarrow> sc_pkcs11_object" where
  "typed_key kt =
     \<lparr>ops = \<lparr>can_do = None, init_params = None,
             get_attribute = (\<lambda>a. if a = CKA_KEY_TYPE then (CKR_OK, kt)
                                   else (CKR_ATTRIBUTE_TYPE_INVALID, 0)),
             sign = (\<lambda>m inp out. (CKR_OK, out))\<rparr>\<rparr>"

definition raw_handle ::
  "sc_pkcs11_object \<Rightarrow> (nat hash_signature_info, (nat, nat) operation_data) sc_pkcs11_operation" where
  "raw_handle key = composed_handle\<lparr>priv_data := Some (fresh_data key)\<rparr>"


section \<open>Simplification sets for the constants\<close>

lemmas CKF_defs =
  CKF_ENCRYPT_def CKF_DECRYPT_def CKF_DIGEST_def CKF_SIGN_def CKF_VERIFY_def
  CKF_WRAP_def CKF_UNWRAP_def CKF_DERIVE_def

lemmas CKK_defs =
  CKK_RSA_def CKK_EC_def CKK_GOSTR3410_def CKK_EC_EDWARDS_def CKK_EC_MONTGOMERY_def


section \<open>The narrowing of a returned code\<close>


lemma int_cast_small:
  assumes "rv < 0x80000000"
  shows "int_cast rv = rv"
proof -
  have u: "uint rv < 2 ^ 31" using assms by (simp add: word_less_def)
  have high: "\<not> bit rv n" if "31 \<le> n" for n
  proof -
    have "(2::int) ^ 31 \<le> 2 ^ n" using that by (intro power_increasing) simp_all
    then have "uint rv < 2 ^ n" using u by linarith
    then have "uint rv div 2 ^ n = 0" by simp
    then have "\<not> bit (uint rv) n" by (simp add: bit_iff_odd)
    then show ?thesis by (auto simp: bit_uint_iff dest: bit_imp_le_length)
  qed
  show ?thesis
    unfolding int_cast_def
    by (rule bit_word_eqI) (auto simp: bit_simps min_def high)
qed



lemma int_cast_0 [simp]: "int_cast 0 = 0"
  by (simp add: int_cast_def)

lemma int_cast_numeral [simp]:
  "(numeral n :: CK_RV) < 0x80000000 \<Longrightarrow> int_cast (numeral n) = numeral n"
  by (rule int_cast_small)

section \<open>The lookup\<close>

lemma find_mechanism_from_Some:
  "find_mechanism_from ps n m fl = Some (i, mt) \<Longrightarrow>
     n \<le> i \<and> i < n + length ps \<and> ps ! (i - n) = Some mt \<and> mech mt = m \<and>
     (flags (mech_info mt) AND ucast fl) = ucast fl"
proof (induction ps arbitrary: n)
  case Nil
  then show ?case by simp
next
  case (Cons p ps)
  show ?case
  proof (cases "find_mechanism_from (p # ps) n m fl = find_mechanism_from ps (Suc n) m fl")
    case True
    with Cons.prems have "find_mechanism_from ps (Suc n) m fl = Some (i, mt)" by simp
    from Cons.IH [OF this] show ?thesis by (auto simp: nth_Cons')
  next
    case False
    with Cons.prems show ?thesis by (auto split: option.splits if_splits)
  qed
qed

lemma find_mechanism_from_None:
  "find_mechanism_from ps n m fl = None \<longleftrightarrow>
     (\<forall>mt. Some mt \<in> set ps \<longrightarrow>
        \<not> (mech mt = m \<and> (flags (mech_info mt) AND ucast fl) = ucast fl))"
  by (induction ps arbitrary: n) (auto split: option.splits)

lemma sc_pkcs11_find_mechanism_Some:
  "sc_pkcs11_find_mechanism c m fl = Some (i, mt) \<Longrightarrow>
     i < length (mechanisms c) \<and> mechanisms c ! i = Some mt \<and> mech mt = m \<and>
     (flags (mech_info mt) AND ucast fl) = ucast fl"
  using find_mechanism_from_Some [of "mechanisms c" 0 m fl i mt]
  by (simp add: sc_pkcs11_find_mechanism_def)

lemma sc_pkcs11_find_mechanism_None:
  "sc_pkcs11_find_mechanism c m fl = None \<longleftrightarrow>
     (\<forall>mt. Some mt \<in> set (mechanisms c) \<longrightarrow>
        \<not> (mech mt = m \<and> (flags (mech_info mt) AND ucast fl) = ucast fl))"
  by (simp add: sc_pkcs11_find_mechanism_def find_mechanism_from_None)

lemma set_registered_ids:
  "set (registered_ids ms) = {mech mt | mt. Some mt \<in> set ms}"
  by (induction ms) (auto simp: registered_ids_def List.map_filter_simps split: option.splits)

lemma registered_ids_map:
  "registered_ids ms = List.map_filter id (map (map_option mech) ms)"
  by (induction ms) (auto simp: registered_ids_def List.map_filter_simps split: option.splits)

lemma registered_ids_append [simp]:
  "registered_ids (ms @ [Some mt]) = registered_ids ms @ [mech mt]"
  by (induction ms) (auto simp: registered_ids_def List.map_filter_simps split: option.splits)

section \<open>Flags: 64 bits stored, 32 bits looked up\<close>

lemma contain_low:
  "((a :: 64 word) AND ucast (fl :: 32 word)) = ucast fl \<longleftrightarrow> ((ucast a :: 32 word) AND fl) = fl"
  apply (simp add: bit_eq_iff bit_simps)
  apply (rule iffI; clarify)
  subgoal for n by (drule spec [of _ n]) auto
  subgoal for n
    using bit_imp_le_length [of fl n] by (cases "bit fl n"; simp) (drule spec [of _ n], auto)
  done

lemma or_low:
  "((a :: 64 word) AND ucast (ucast (f :: 64 word) :: 32 word)) = ucast (ucast f :: 32 word) \<Longrightarrow>
     (ucast (a OR f) :: 32 word) = ucast a"
  apply (simp add: bit_eq_iff bit_simps)
  apply clarify
  subgoal for n by (drule spec [of _ n]) auto
  done

lemma flags_update_mech_info [simp]:
  "flags (update_mech_info mi new_mi) = flags mi OR flags new_mi"
  by (simp add: update_mech_info_def Let_def)

section \<open>Registration keeps the registry unshadowed\<close>

lemma shadows_lookup_key:
  "shadows a b \<longleftrightarrow>
     fst (lookup_key a) = fst (lookup_key b) \<and>
     (snd (lookup_key a) AND snd (lookup_key b)) = snd (lookup_key b)"
  by (simp add: shadows_def lookup_key_def contain_low lookup_flags_def)

lemma list_all_unshadowed_key:
  "map (map_option lookup_key) ps = map (map_option lookup_key) ps' \<Longrightarrow>
   lookup_key a = lookup_key a' \<Longrightarrow>
   list_all (\<lambda>q. case q of None \<Rightarrow> True | Some b \<Rightarrow> \<not> shadows a b) ps =
   list_all (\<lambda>q. case q of None \<Rightarrow> True | Some b \<Rightarrow> \<not> shadows a' b) ps'"
proof (induction ps arbitrary: ps')
  case Nil
  then show ?case by simp
next
  case (Cons p ps)
  then obtain p' qs where ps': "ps' = p' # qs" by (cases ps') auto
  with Cons.prems have hd: "map_option lookup_key p = map_option lookup_key p'"
    and tl: "map (map_option lookup_key) ps = map (map_option lookup_key) qs" by auto
  from hd Cons.prems(2)
  have "(case p of None \<Rightarrow> True | Some b \<Rightarrow> \<not> shadows a b) =
        (case p' of None \<Rightarrow> True | Some b \<Rightarrow> \<not> shadows a' b)"
    by (cases p; cases p') (auto simp: shadows_lookup_key)
  with Cons.IH [OF tl Cons.prems(2)] ps' show ?case by simp
qed

lemma unshadowed_cong:
  "map (map_option lookup_key) ms = map (map_option lookup_key) ms' \<Longrightarrow>
     unshadowed ms = unshadowed ms'"
proof (induction ms arbitrary: ms')
  case Nil
  then show ?case by simp
next
  case (Cons p ps)
  then obtain p' qs where ms': "ms' = p' # qs" by (cases ms') auto
  with Cons.prems have hd: "map_option lookup_key p = map_option lookup_key p'"
    and tl: "map (map_option lookup_key) ps = map (map_option lookup_key) qs" by auto
  have "(case p of None \<Rightarrow> True
         | Some a \<Rightarrow> list_all (\<lambda>q. case q of None \<Rightarrow> True | Some b \<Rightarrow> \<not> shadows a b) ps) =
        (case p' of None \<Rightarrow> True
         | Some a \<Rightarrow> list_all (\<lambda>q. case q of None \<Rightarrow> True | Some b \<Rightarrow> \<not> shadows a b) qs)"
    using hd list_all_unshadowed_key [OF tl] by (cases p; cases p') auto
  with Cons.IH [OF tl] ms' show ?case by simp
qed

lemma unshadowed_append:
  "unshadowed (ms @ [Some c]) \<longleftrightarrow>
     unshadowed ms \<and> (\<forall>a. Some a \<in> set ms \<longrightarrow> \<not> shadows a c)"
  by (induction ms) (auto split: option.splits)

lemma merged_lookup_key:
  assumes "sc_pkcs11_find_mechanism c (mech mt) (lookup_flags mt) = Some (e, existing_mt)"
  shows "map (map_option lookup_key) ((mechanisms c)[e := Some (existing_mt
            \<lparr>mech_info := update_mech_info (mech_info existing_mt) (mech_info mt),
             key_types := kts\<rparr>)])
         = map (map_option lookup_key) (mechanisms c)"
proof -
  from sc_pkcs11_find_mechanism_Some [OF assms]
  have e: "e < length (mechanisms c)" and at: "mechanisms c ! e = Some existing_mt"
    and fl: "(flags (mech_info existing_mt) AND ucast (lookup_flags mt)) = ucast (lookup_flags mt)"
    by simp_all
  have "lookup_key (existing_mt
            \<lparr>mech_info := update_mech_info (mech_info existing_mt) (mech_info mt),
             key_types := kts\<rparr>)
        = lookup_key existing_mt"
    using or_low [of "flags (mech_info existing_mt)" "flags (mech_info mt)"] fl
    by (simp add: lookup_key_def lookup_flags_def)
  then show ?thesis
    using e at by (simp add: map_update list_update_same_conv)
qed

lemma copy_mechanism_Some:
  "sc_pkcs11_copy_mechanism env mt = (rv, Some copy_mt) \<Longrightarrow>
     rv = CKR_OK \<and> mech copy_mt = mech mt \<and> mech_info copy_mt = mech_info mt \<and>
     key_types copy_mt = key_types mt"
  by (auto simp: sc_pkcs11_copy_mechanism_def split: if_splits option.splits prod.splits)

lemma copy_mechanism_None:
  "sc_pkcs11_copy_mechanism env mt = (rv, None) \<Longrightarrow> rv \<noteq> CKR_OK"
  by (auto simp: sc_pkcs11_copy_mechanism_def split: if_splits option.splits prod.splits)

lemma register_found:
  assumes "sc_pkcs11_find_mechanism c (mech mt) (lookup_flags mt) = Some (e, existing_mt)"
  shows "sc_pkcs11_register_mechanism env c (Some mt) =
     (case add_key_type (key_types existing_mt) 0 (key_types mt ! 0) of
        Some kts \<Rightarrow>
          Returned CKR_OK
            (c\<lparr>mechanisms := (mechanisms c)
               [e := Some (existing_mt
                  \<lparr>mech_info := update_mech_info (mech_info existing_mt) (mech_info mt),
                   key_types := kts\<rparr>)]\<rparr>)
      | None \<Rightarrow> Returned CKR_BUFFER_TOO_SMALL c)"
  using assms by (simp add: sc_pkcs11_register_mechanism_def lookup_flags_def)

lemma register_not_found:
  assumes "sc_pkcs11_find_mechanism c (mech mt) (lookup_flags mt) = None"
  shows "sc_pkcs11_register_mechanism env c (Some mt) =
     (if \<not> realloc_ok env then Returned CKR_HOST_MEMORY c
      else (case sc_pkcs11_copy_mechanism env mt of
              (rv, None) \<Rightarrow> if mechanisms c = [] then Returned rv c else Registry_released rv
            | (rv, Some copy_mt) \<Rightarrow>
                Returned CKR_OK (c\<lparr>mechanisms := mechanisms c @ [Some copy_mt]\<rparr>)))"
  using assms by (simp add: sc_pkcs11_register_mechanism_def lookup_flags_def)

lemma register_unshadowed:
  assumes inv: "unshadowed (mechanisms c)"
    and reg: "sc_pkcs11_register_mechanism env c mt_ptr = Returned rv c'"
  shows "unshadowed (mechanisms c')"
proof (cases mt_ptr)
  case None
  with reg inv show ?thesis by (simp add: sc_pkcs11_register_mechanism_def)
next
  case (Some mt)
  show ?thesis
  proof (cases "sc_pkcs11_find_mechanism c (mech mt) (lookup_flags mt)")
    case None
    then have nf: "\<forall>a. Some a \<in> set (mechanisms c) \<longrightarrow> \<not> shadows a mt"
      by (simp add: sc_pkcs11_find_mechanism_None shadows_def)
    show ?thesis
    proof (cases "sc_pkcs11_copy_mechanism env mt")
      case (Pair rv' copy)
      show ?thesis
      proof (cases copy)
        case None
        with reg \<open>mt_ptr = Some mt\<close> Pair inv
          register_not_found [OF \<open>sc_pkcs11_find_mechanism c (mech mt) (lookup_flags mt) = None\<close>, of env]
        show ?thesis by (auto split: if_splits)
      next
        case (Some copy_mt)
        with Pair have "mech copy_mt = mech mt \<and> mech_info copy_mt = mech_info mt"
          using copy_mechanism_Some by blast
        then have "\<forall>a. shadows a copy_mt = shadows a mt"
          by (simp add: shadows_def lookup_flags_def)
        with nf inv have "unshadowed (mechanisms c @ [Some copy_mt])"
          by (simp add: unshadowed_append)
        with reg \<open>mt_ptr = Some mt\<close> Pair Some inv
          register_not_found [OF \<open>sc_pkcs11_find_mechanism c (mech mt) (lookup_flags mt) = None\<close>, of env]
        show ?thesis by (auto split: if_splits)
      qed
    qed
  next
    case (Some found)
    obtain e existing_mt where "found = (e, existing_mt)" by (cases found)
    with Some have f: "sc_pkcs11_find_mechanism c (mech mt) (lookup_flags mt) = Some (e, existing_mt)"
      by simp
    from reg \<open>mt_ptr = Some mt\<close> inv register_found [OF f, of env]
      unshadowed_cong [OF merged_lookup_key [OF f]]
    show ?thesis by (auto split: option.splits)
  qed
qed

lemma register_ids:
  assumes reg: "sc_pkcs11_register_mechanism env c (Some mt) = Returned rv c'"
  shows "registered_ids (mechanisms c') =
     (if sc_pkcs11_find_mechanism c (mech mt) (lookup_flags mt) = None \<and> rv = CKR_OK
      then registered_ids (mechanisms c) @ [mech mt]
      else registered_ids (mechanisms c))"
proof (cases "sc_pkcs11_find_mechanism c (mech mt) (lookup_flags mt)")
  case None
  show ?thesis
  proof (cases "sc_pkcs11_copy_mechanism env mt")
    case (Pair rv' copy)
    show ?thesis
    proof (cases copy)
      case None
      with Pair have "rv' \<noteq> CKR_OK" using copy_mechanism_None by blast
      with reg Pair None register_not_found [OF \<open>sc_pkcs11_find_mechanism c (mech mt) (lookup_flags mt) = None\<close>, of env]
      show ?thesis by (auto split: if_splits)
    next
      case (Some copy_mt)
      with Pair have "mech copy_mt = mech mt" using copy_mechanism_Some by blast
      with reg Pair Some \<open>sc_pkcs11_find_mechanism c (mech mt) (lookup_flags mt) = None\<close>
        register_not_found [OF \<open>sc_pkcs11_find_mechanism c (mech mt) (lookup_flags mt) = None\<close>, of env]
      show ?thesis by (auto split: if_splits)
    qed
  qed
next
  case (Some found)
  obtain e existing_mt where "found = (e, existing_mt)" by (cases found)
  with Some have f: "sc_pkcs11_find_mechanism c (mech mt) (lookup_flags mt) = Some (e, existing_mt)"
    by simp
  have "map (map_option mech) ((mechanisms c)[e := Some (existing_mt
            \<lparr>mech_info := update_mech_info (mech_info existing_mt) (mech_info mt),
             key_types := kts\<rparr>)])
         = map (map_option mech) (mechanisms c)" for kts
    using sc_pkcs11_find_mechanism_Some [OF f] by (simp add: map_update list_update_same_conv)
  then have "registered_ids ((mechanisms c)[e := Some (existing_mt
            \<lparr>mech_info := update_mech_info (mech_info existing_mt) (mech_info mt),
             key_types := kts\<rparr>)]) = registered_ids (mechanisms c)" for kts
    by (simp add: registered_ids_map)
  with reg f register_found [OF f, of env] show ?thesis
    by (auto split: option.splits)
qed

lemma register_all_unshadowed:
  "unshadowed (mechanisms c) \<Longrightarrow> register_all c calls = Some c' \<Longrightarrow> unshadowed (mechanisms c')"
proof (induction calls arbitrary: c)
  case Nil
  then show ?case by simp
next
  case (Cons call calls)
  obtain env mt where call: "call = (env, mt)" by (cases call)
  show ?case
  proof (cases "sc_pkcs11_register_mechanism env c mt")
    case (Returned rv c1)
    with Cons.prems call have "register_all c1 calls = Some c'" by simp
    moreover from register_unshadowed [OF Cons.prems(1) Returned]
    have "unshadowed (mechanisms c1)" .
    ultimately show ?thesis by (rule Cons.IH [rotated])
  next
    case (Registry_released rv)
    with Cons.prems call show ?thesis by simp
  qed
qed

lemma add_key_type_None:
  "new \<notin> set (drop i kts) \<Longrightarrow> \<forall>k \<in> set (drop i kts). \<not> k <s 0 \<Longrightarrow> add_key_type kts i new = None"
proof (induction kts i new rule: add_key_type.induct)
  case (1 kts i new)
  show ?case
  proof (cases "i < length kts")
    case True
    then have d: "drop i kts = kts ! i # drop (Suc i) kts" by (simp add: Cons_nth_drop_Suc)
    with "1.prems" have "kts ! i \<noteq> new" "\<not> kts ! i <s 0"
      "new \<notin> set (drop (i + 1) kts)" "\<forall>k \<in> set (drop (i + 1) kts). \<not> k <s 0"
      by auto
    with True "1.IH" show ?thesis by (simp add: add_key_type.simps [of kts i new])
  next
    case False
    then show ?thesis by (simp add: add_key_type.simps [of kts i new])
  qed
qed

lemma replicate_two: "replicate 2 x = [x, x]"
  by (simp add: numeral_2_eq_2)

lemmas example_defs =
  replicate_two plain_env_def sign_info_def sign_verify_info_def sign_with_def sign_verify_with_def
  empty_card_def sc_pkcs11_new_fw_mechanism_def calloc_mechanism_type_def
  CKF_defs CKK_defs

lemmas register_eval =
  example_defs sc_pkcs11_register_mechanism_def sc_pkcs11_find_mechanism_def
  sc_pkcs11_copy_mechanism_def add_key_type.simps word_sless_alt lookup_flags_def

lemma full_card_eq:
  "register_all empty_card
     [(plain_env, Some (sign_with CKK_RSA)), (plain_env, Some (sign_with CKK_EC))] = Some full_card"
  by (simp add: full_card_def register_eval)

lemma mechanisms_full_card:
  "mechanisms full_card = [Some ((sign_with CKK_RSA)\<lparr>key_types := [0, 3]\<rparr>)]"
  by (simp add: full_card_def register_eval update_mech_info_def)

lemma update_mech_info_eq:
  "update_mech_info mi new_mi =
     \<lparr>ulMinKeySize = min (ulMinKeySize mi) (ulMinKeySize new_mi),
      ulMaxKeySize = max (ulMaxKeySize mi) (ulMaxKeySize new_mi),
      flags = flags mi OR flags new_mi\<rparr>"
  by (cases mi) (auto simp: update_mech_info_def Let_def min_def max_def)

text \<open>
  The loop over the slots stops at the first slot that holds the new key type or is free
  (negative): a slot that holds the key type is left, a free slot gets it and the slot
  after, when there is one, becomes the free one.
\<close>

lemma add_key_type_first:
  "add_key_type kts j new =
     (let i = j + length (takeWhile (\<lambda>k. k \<noteq> new \<and> \<not> k <s 0) (drop j kts))
      in if i < length kts
         then (if kts ! i = new then Some kts
               else Some (if i + 1 < length kts then kts[i := new, i + 1 := - 1]
                          else kts[i := new]))
         else None)"
proof (induction kts j new rule: add_key_type.induct)
  case (1 kts i new)
  show ?case
  proof (cases "i < length kts")
    case True
    then have d: "drop i kts = kts ! i # drop (Suc i) kts" by (simp add: Cons_nth_drop_Suc)
    show ?thesis
    proof (cases "kts ! i = new \<or> kts ! i <s 0")
      case True
      with \<open>i < length kts\<close> d show ?thesis
        by (auto simp: add_key_type.simps [of kts i new] Let_def)
    next
      case False
      with \<open>i < length kts\<close> d "1.IH" show ?thesis
        by (simp add: add_key_type.simps [of kts i new] Let_def)
    qed
  next
    case False
    then show ?thesis by (simp add: add_key_type.simps [of kts i new] Let_def)
  qed
qed

lemma register_found_slots:
  assumes "sc_pkcs11_find_mechanism c (mech mt) (lookup_flags mt) = Some (e, existing_mt)"
    and "i = length (takeWhile (\<lambda>k. k \<noteq> key_types mt ! 0 \<and> \<not> k <s 0) (key_types existing_mt))"
  shows "sc_pkcs11_register_mechanism env c (Some mt) =
     (if i < length (key_types existing_mt)
      then Returned CKR_OK
             (c\<lparr>mechanisms := (mechanisms c)
                [e := Some (existing_mt
                   \<lparr>mech_info :=
                      \<lparr>ulMinKeySize = min (ulMinKeySize (mech_info existing_mt))
                                          (ulMinKeySize (mech_info mt)),
                       ulMaxKeySize = max (ulMaxKeySize (mech_info existing_mt))
                                          (ulMaxKeySize (mech_info mt)),
                       flags = flags (mech_info existing_mt) OR flags (mech_info mt)\<rparr>,
                    key_types :=
                      (if key_types existing_mt ! i = key_types mt ! 0 then key_types existing_mt
                       else if i + 1 < length (key_types existing_mt)
                       then (key_types existing_mt)[i := key_types mt ! 0, i + 1 := - 1]
                       else (key_types existing_mt)[i := key_types mt ! 0])\<rparr>)]\<rparr>)
      else Returned CKR_BUFFER_TOO_SMALL c)"
  using register_found [OF assms(1), of env] assms(2)
    add_key_type_first [of "key_types existing_mt" 0 "key_types mt ! 0"]
  by (simp add: Let_def update_mech_info_eq)

lemma rsa_card_eq:
  "register_all empty_card [(plain_env, Some (sign_with CKK_RSA))] = Some rsa_card"
  by (simp add: rsa_card_def register_eval)

lemma mechanisms_rsa_card: "mechanisms rsa_card = [Some (sign_with CKK_RSA)]"
  by (simp add: rsa_card_def register_eval)

section \<open>The claims about the registry\<close>

text \<open>
  C9. The mechanism-info query looks the id up with no required flag. It answers
  \<open>CKR_OK\<close> exactly when some registered descriptor has the id, whatever the flags of that
  descriptor, and then hands out the stored info of such a descriptor; otherwise it answers
  \<open>CKR_MECHANISM_INVALID\<close> and leaves the caller's info untouched.
\<close>

theorem get_mechanism_info_by_id:
  "(fst (sc_pkcs11_get_mechanism_info p11card m pInfo) = CKR_OK \<longleftrightarrow>
      m \<in> set (registered_ids (mechanisms p11card))) \<and>
   (m \<in> set (registered_ids (mechanisms p11card)) \<longrightarrow>
      (\<exists>mt. Some mt \<in> set (mechanisms p11card) \<and> mech mt = m \<and>
            sc_pkcs11_get_mechanism_info p11card m pInfo = (CKR_OK, mech_info mt))) \<and>
   (m \<notin> set (registered_ids (mechanisms p11card)) \<longrightarrow>
      sc_pkcs11_get_mechanism_info p11card m pInfo = (CKR_MECHANISM_INVALID, pInfo))"
proof (cases "sc_pkcs11_find_mechanism p11card m 0")
  case None
  then have "m \<notin> set (registered_ids (mechanisms p11card))"
    by (auto simp: sc_pkcs11_find_mechanism_None set_registered_ids)
  with None show ?thesis by (simp add: sc_pkcs11_get_mechanism_info_def)
next
  case (Some found)
  obtain i mt where "found = (i, mt)" by (cases found)
  with Some have f: "sc_pkcs11_find_mechanism p11card m 0 = Some (i, mt)" by simp
  from sc_pkcs11_find_mechanism_Some [OF f]
  have "Some mt \<in> set (mechanisms p11card)" "mech mt = m"
    by (auto simp: in_set_conv_nth)
  moreover from this have "m \<in> set (registered_ids (mechanisms p11card))"
    by (auto simp: set_registered_ids)
  ultimately show ?thesis using f by (auto simp: sc_pkcs11_get_mechanism_info_def)
qed

theorem get_mechanism_info_by_id_witness:
  "1 \<in> set (registered_ids (mechanisms full_card)) \<and>
   2 \<notin> set (registered_ids (mechanisms full_card)) \<and>
   fst (sc_pkcs11_get_mechanism_info full_card 1 sign_verify_info) = CKR_OK \<and>
   sc_pkcs11_get_mechanism_info full_card 2 sign_verify_info =
     (CKR_MECHANISM_INVALID, sign_verify_info)"
  using get_mechanism_info_by_id [of full_card 1 sign_verify_info]
    get_mechanism_info_by_id [of full_card 2 sign_verify_info]
  by (simp add: mechanisms_full_card registered_ids_def List.map_filter_simps example_defs)

text \<open>
  C2, as the code has it. The lookup that decides between merging and appending asks for
  the id \<^emph>\<open>and\<close> the flags of the new descriptor. After any sequence of registrations that
  started from an empty registry (none of which left the array released), one more
  registration does this:
  \<^item> when the lookup finds a descriptor, its slots are read up to the first that holds the
    new key type or is free (negative). If there is such a slot the call answers \<open>CKR_OK\<close>
    and the descriptor found gets the smaller of the two minimal key sizes, the larger of
    the two maximal key sizes and the flags of both; a slot that holds the key type leaves
    the slots as they are, a free slot gets the key type and the slot after it, if there is
    one, becomes the free one. If there is no such slot the call answers
    \<open>CKR_BUFFER_TOO_SMALL\<close> and the card is what it was;
  \<^item> when the lookup finds nothing, the call fails without memory, or appends a copy of the
    descriptor with its id, its info and its slots;
  \<^item> whenever the call returns with the card, no descriptor of the registry is accepted by
    the lookup for a later one (so no two descriptors have the same id and the same
    looked-up flags), and the id was appended exactly when the lookup found nothing and the
    call answered \<open>CKR_OK\<close>; in every other case the list of ids is as before.
\<close>

theorem register_keeps_lookup_unique:
  assumes "register_all \<lparr>mechanisms = []\<rparr> calls = Some p11card"
  shows
   "(\<forall>e existing_mt i.
       sc_pkcs11_find_mechanism p11card (mech mt) (lookup_flags mt) = Some (e, existing_mt) \<and>
       i = length (takeWhile (\<lambda>k. k \<noteq> key_types mt ! 0 \<and> \<not> k <s 0)
                     (key_types existing_mt)) \<longrightarrow>
       sc_pkcs11_register_mechanism env p11card (Some mt) =
         (if i < length (key_types existing_mt)
          then Returned CKR_OK
                 (p11card\<lparr>mechanisms := (mechanisms p11card)
                    [e := Some (existing_mt
                       \<lparr>mech_info :=
                          \<lparr>ulMinKeySize = min (ulMinKeySize (mech_info existing_mt))
                                              (ulMinKeySize (mech_info mt)),
                           ulMaxKeySize = max (ulMaxKeySize (mech_info existing_mt))
                                              (ulMaxKeySize (mech_info mt)),
                           flags = flags (mech_info existing_mt) OR flags (mech_info mt)\<rparr>,
                        key_types :=
                          (if key_types existing_mt ! i = key_types mt ! 0
                           then key_types existing_mt
                           else if i + 1 < length (key_types existing_mt)
                           then (key_types existing_mt)[i := key_types mt ! 0, i + 1 := - 1]
                           else (key_types existing_mt)[i := key_types mt ! 0])\<rparr>)]\<rparr>)
          else Returned CKR_BUFFER_TOO_SMALL p11card)) \<and>
    (sc_pkcs11_find_mechanism p11card (mech mt) (lookup_flags mt) = None \<longrightarrow>
       sc_pkcs11_register_mechanism env p11card (Some mt) =
         (if \<not> realloc_ok env then Returned CKR_HOST_MEMORY p11card
          else (case sc_pkcs11_copy_mechanism env mt of
                  (rv, None) \<Rightarrow>
                    if mechanisms p11card = [] then Returned rv p11card
                    else Registry_released rv
                | (rv, Some copy_mt) \<Rightarrow>
                    Returned CKR_OK
                      (p11card\<lparr>mechanisms := mechanisms p11card @ [Some copy_mt]\<rparr>))) \<and>
       (\<forall>rv copy_mt. sc_pkcs11_copy_mechanism env mt = (rv, Some copy_mt) \<longrightarrow>
          mech copy_mt = mech mt \<and> mech_info copy_mt = mech_info mt \<and>
          key_types copy_mt = key_types mt)) \<and>
    (\<forall>rv p11card'.
       sc_pkcs11_register_mechanism env p11card (Some mt) = Returned rv p11card' \<longrightarrow>
       unshadowed (mechanisms p11card') \<and>
       registered_ids (mechanisms p11card') =
         (if sc_pkcs11_find_mechanism p11card (mech mt) (lookup_flags mt) = None \<and> rv = CKR_OK
          then registered_ids (mechanisms p11card) @ [mech mt]
          else registered_ids (mechanisms p11card)))"
proof (intro conjI allI impI)
  fix e existing_mt i
  assume "sc_pkcs11_find_mechanism p11card (mech mt) (lookup_flags mt) = Some (e, existing_mt) \<and>
       i = length (takeWhile (\<lambda>k. k \<noteq> key_types mt ! 0 \<and> \<not> k <s 0)
                     (key_types existing_mt))"
  then have f: "sc_pkcs11_find_mechanism p11card (mech mt) (lookup_flags mt) =
                  Some (e, existing_mt)"
    and i: "i = length (takeWhile (\<lambda>k. k \<noteq> key_types mt ! 0 \<and> \<not> k <s 0)
                     (key_types existing_mt))"
    by simp_all
  from register_found_slots [OF f i, of env]
  show "sc_pkcs11_register_mechanism env p11card (Some mt) =
         (if i < length (key_types existing_mt)
          then Returned CKR_OK
                 (p11card\<lparr>mechanisms := (mechanisms p11card)
                    [e := Some (existing_mt
                       \<lparr>mech_info :=
                          \<lparr>ulMinKeySize = min (ulMinKeySize (mech_info existing_mt))
                                              (ulMinKeySize (mech_info mt)),
                           ulMaxKeySize = max (ulMaxKeySize (mech_info existing_mt))
                                              (ulMaxKeySize (mech_info mt)),
                           flags = flags (mech_info existing_mt) OR flags (mech_info mt)\<rparr>,
                        key_types :=
                          (if key_types existing_mt ! i = key_types mt ! 0
                           then key_types existing_mt
                           else if i + 1 < length (key_types existing_mt)
                           then (key_types existing_mt)[i := key_types mt ! 0, i + 1 := - 1]
                           else (key_types existing_mt)[i := key_types mt ! 0])\<rparr>)]\<rparr>)
          else Returned CKR_BUFFER_TOO_SMALL p11card)" .
next
  assume "sc_pkcs11_find_mechanism p11card (mech mt) (lookup_flags mt) = None"
  from register_not_found [OF this, of env]
  show "sc_pkcs11_register_mechanism env p11card (Some mt) =
         (if \<not> realloc_ok env then Returned CKR_HOST_MEMORY p11card
          else (case sc_pkcs11_copy_mechanism env mt of
                  (rv, None) \<Rightarrow>
                    if mechanisms p11card = [] then Returned rv p11card
                    else Registry_released rv
                | (rv, Some copy_mt) \<Rightarrow>
                    Returned CKR_OK
                      (p11card\<lparr>mechanisms := mechanisms p11card @ [Some copy_mt]\<rparr>)))" .
next
  fix rv copy_mt
  assume "sc_pkcs11_copy_mechanism env mt = (rv, Some copy_mt)"
  from copy_mechanism_Some [OF this]
  show "mech copy_mt = mech mt" "mech_info copy_mt = mech_info mt"
    "key_types copy_mt = key_types mt"
    by simp_all
next
  fix rv p11card'
  assume reg: "sc_pkcs11_register_mechanism env p11card (Some mt) = Returned rv p11card'"
  have "unshadowed (mechanisms (\<lparr>mechanisms = []\<rparr> :: 'a sc_pkcs11_card))" by simp
  from register_all_unshadowed [OF this assms] have "unshadowed (mechanisms p11card)" .
  from register_unshadowed [OF this reg]
  show "unshadowed (mechanisms p11card')" .
  from register_ids [OF reg]
  show "registered_ids (mechanisms p11card') =
         (if sc_pkcs11_find_mechanism p11card (mech mt) (lookup_flags mt) = None \<and> rv = CKR_OK
          then registered_ids (mechanisms p11card) @ [mech mt]
          else registered_ids (mechanisms p11card))" .
qed

theorem register_keeps_lookup_unique_witness:
  "register_all \<lparr>mechanisms = []\<rparr> [(plain_env, Some (sign_with CKK_RSA))] = Some rsa_card \<and>
   sc_pkcs11_find_mechanism rsa_card (mech (wide_sign_with CKK_EC))
     (lookup_flags (wide_sign_with CKK_EC)) = Some (0, sign_with CKK_RSA) \<and>
   key_types (sign_with CKK_RSA) = [0, - 1] \<and>
   sc_pkcs11_register_mechanism plain_env rsa_card (Some (wide_sign_with CKK_EC)) =
     Returned CKR_OK
       (rsa_card\<lparr>mechanisms :=
          [Some ((sign_with CKK_RSA)\<lparr>mech_info := wide_sign_info, key_types := [0, 3]\<rparr>)]\<rparr>) \<and>
   register_all \<lparr>mechanisms = []\<rparr>
     [(plain_env, Some (sign_with CKK_RSA)), (plain_env, Some (sign_with CKK_EC))] = Some full_card \<and>
   sc_pkcs11_find_mechanism full_card (mech (wide_sign_with CKK_EC))
     (lookup_flags (wide_sign_with CKK_EC)) = Some (0, (sign_with CKK_RSA)\<lparr>key_types := [0, 3]\<rparr>) \<and>
   sc_pkcs11_register_mechanism plain_env full_card (Some (wide_sign_with CKK_EC)) =
     Returned CKR_OK
       (full_card\<lparr>mechanisms :=
          [Some ((sign_with CKK_RSA)\<lparr>mech_info := wide_sign_info, key_types := [0, 3]\<rparr>)]\<rparr>) \<and>
   sc_pkcs11_register_mechanism plain_env full_card (Some (sign_with CKK_GOSTR3410)) =
     Returned CKR_BUFFER_TOO_SMALL full_card \<and>
   sc_pkcs11_find_mechanism full_card (mech (sign_verify_with CKK_GOSTR3410))
      (lookup_flags (sign_verify_with CKK_GOSTR3410)) = None \<and>
   sc_pkcs11_register_mechanism plain_env full_card (Some (sign_verify_with CKK_GOSTR3410)) =
     Returned CKR_OK
       (full_card\<lparr>mechanisms := mechanisms full_card @ [Some (sign_verify_with CKK_GOSTR3410)]\<rparr>) \<and>
   unshadowed (mechanisms full_card @ [Some (sign_verify_with CKK_GOSTR3410)]) \<and>
   registered_ids (mechanisms full_card @ [Some (sign_verify_with CKK_GOSTR3410)]) = [1, 1]"
proof -
  have seq1: "register_all \<lparr>mechanisms = []\<rparr> [(plain_env, Some (sign_with CKK_RSA))] =
                Some rsa_card"
    using rsa_card_eq by (simp add: empty_card_def)
  have seq2: "register_all \<lparr>mechanisms = []\<rparr>
     [(plain_env, Some (sign_with CKK_RSA)), (plain_env, Some (sign_with CKK_EC))] = Some full_card"
    using full_card_eq by (simp add: empty_card_def)
  have k: "key_types (sign_with CKK_RSA) = [0, - 1]"
    "key_types (wide_sign_with CKK_EC) ! 0 = 3" "key_types (sign_with CKK_GOSTR3410) ! 0 = 0x30"
    "mech_info (sign_with CKK_RSA) = sign_info" "mech_info (wide_sign_with CKK_EC) = wide_sign_info"
    by (simp_all add: example_defs wide_sign_with_def wide_sign_info_def)
  have m: "\<lparr>ulMinKeySize = min (ulMinKeySize sign_info) (ulMinKeySize wide_sign_info),
            ulMaxKeySize = max (ulMaxKeySize sign_info) (ulMaxKeySize wide_sign_info),
            flags = flags sign_info OR flags wide_sign_info\<rparr> = wide_sign_info"
    by (simp add: sign_info_def wide_sign_info_def)
  have f1: "sc_pkcs11_find_mechanism rsa_card (mech (wide_sign_with CKK_EC))
     (lookup_flags (wide_sign_with CKK_EC)) = Some (0, sign_with CKK_RSA)"
    by (simp add: mechanisms_rsa_card register_eval wide_sign_with_def wide_sign_info_def)
  have i1: "1 = length (takeWhile (\<lambda>k. k \<noteq> key_types (wide_sign_with CKK_EC) ! 0 \<and> \<not> k <s 0)
                     (key_types (sign_with CKK_RSA)))"
    by (simp add: k word_sless_alt)
  from register_keeps_lookup_unique [OF seq1, of "wide_sign_with CKK_EC" plain_env] f1 i1
  have "sc_pkcs11_register_mechanism plain_env rsa_card (Some (wide_sign_with CKK_EC)) =
         (if 1 < length (key_types (sign_with CKK_RSA))
          then Returned CKR_OK
                 (rsa_card\<lparr>mechanisms := (mechanisms rsa_card)
                    [0 := Some ((sign_with CKK_RSA)
                       \<lparr>mech_info :=
                          \<lparr>ulMinKeySize = min (ulMinKeySize (mech_info (sign_with CKK_RSA)))
                                              (ulMinKeySize (mech_info (wide_sign_with CKK_EC))),
                           ulMaxKeySize = max (ulMaxKeySize (mech_info (sign_with CKK_RSA)))
                                              (ulMaxKeySize (mech_info (wide_sign_with CKK_EC))),
                           flags = flags (mech_info (sign_with CKK_RSA)) OR
                                   flags (mech_info (wide_sign_with CKK_EC))\<rparr>,
                        key_types :=
                          (if key_types (sign_with CKK_RSA) ! 1 = key_types (wide_sign_with CKK_EC) ! 0
                           then key_types (sign_with CKK_RSA)
                           else if 1 + 1 < length (key_types (sign_with CKK_RSA))
                           then (key_types (sign_with CKK_RSA))
                                  [1 := key_types (wide_sign_with CKK_EC) ! 0, 1 + 1 := - 1]
                           else (key_types (sign_with CKK_RSA))
                                  [1 := key_types (wide_sign_with CKK_EC) ! 0])\<rparr>)]\<rparr>)
          else Returned CKR_BUFFER_TOO_SMALL rsa_card)"
    by blast
  then have r1: "sc_pkcs11_register_mechanism plain_env rsa_card (Some (wide_sign_with CKK_EC)) =
     Returned CKR_OK
       (rsa_card\<lparr>mechanisms :=
          [Some ((sign_with CKK_RSA)\<lparr>mech_info := wide_sign_info, key_types := [0, 3]\<rparr>)]\<rparr>)"
    by (simp add: k m mechanisms_rsa_card)
  have f2: "sc_pkcs11_find_mechanism full_card (mech (wide_sign_with CKK_EC))
     (lookup_flags (wide_sign_with CKK_EC)) = Some (0, (sign_with CKK_RSA)\<lparr>key_types := [0, 3]\<rparr>)"
    by (simp add: mechanisms_full_card register_eval wide_sign_with_def wide_sign_info_def)
  have i2: "1 = length (takeWhile (\<lambda>k. k \<noteq> key_types (wide_sign_with CKK_EC) ! 0 \<and> \<not> k <s 0)
                     (key_types ((sign_with CKK_RSA)\<lparr>key_types := [0, 3]\<rparr>)))"
    by (simp add: k word_sless_alt)
  from register_keeps_lookup_unique [OF seq2, of "wide_sign_with CKK_EC" plain_env] f2 i2
  have "sc_pkcs11_register_mechanism plain_env full_card (Some (wide_sign_with CKK_EC)) =
         (if 1 < length (key_types ((sign_with CKK_RSA)\<lparr>key_types := [0, 3]\<rparr>))
          then Returned CKR_OK
                 (full_card\<lparr>mechanisms := (mechanisms full_card)
                    [0 := Some ((sign_with CKK_RSA)\<lparr>key_types := [0, 3]\<rparr>
                       \<lparr>mech_info :=
                          \<lparr>ulMinKeySize =
                             min (ulMinKeySize (mech_info ((sign_with CKK_RSA)\<lparr>key_types := [0, 3]\<rparr>)))
                                 (ulMinKeySize (mech_info (wide_sign_with CKK_EC))),
                           ulMaxKeySize =
                             max (ulMaxKeySize (mech_info ((sign_with CKK_RSA)\<lparr>key_types := [0, 3]\<rparr>)))
                                 (ulMaxKeySize (mech_info (wide_sign_with CKK_EC))),
                           flags = flags (mech_info ((sign_with CKK_RSA)\<lparr>key_types := [0, 3]\<rparr>)) OR
                                   flags (mech_info (wide_sign_with CKK_EC))\<rparr>,
                        key_types :=
                          (if key_types ((sign_with CKK_RSA)\<lparr>key_types := [0, 3]\<rparr>) ! 1 =
                              key_types (wide_sign_with CKK_EC) ! 0
                           then key_types ((sign_with CKK_RSA)\<lparr>key_types := [0, 3]\<rparr>)
                           else if 1 + 1 < length (key_types ((sign_with CKK_RSA)\<lparr>key_types := [0, 3]\<rparr>))
                           then (key_types ((sign_with CKK_RSA)\<lparr>key_types := [0, 3]\<rparr>))
                                  [1 := key_types (wide_sign_with CKK_EC) ! 0, 1 + 1 := - 1]
                           else (key_types ((sign_with CKK_RSA)\<lparr>key_types := [0, 3]\<rparr>))
                                  [1 := key_types (wide_sign_with CKK_EC) ! 0])\<rparr>)]\<rparr>)
          else Returned CKR_BUFFER_TOO_SMALL full_card)"
    by blast
  then have r2: "sc_pkcs11_register_mechanism plain_env full_card (Some (wide_sign_with CKK_EC)) =
     Returned CKR_OK
       (full_card\<lparr>mechanisms :=
          [Some ((sign_with CKK_RSA)\<lparr>mech_info := wide_sign_info, key_types := [0, 3]\<rparr>)]\<rparr>)"
    by (simp add: k m mechanisms_full_card)
  have f3: "sc_pkcs11_find_mechanism full_card (mech (sign_with CKK_GOSTR3410))
     (lookup_flags (sign_with CKK_GOSTR3410)) = Some (0, (sign_with CKK_RSA)\<lparr>key_types := [0, 3]\<rparr>)"
    by (simp add: mechanisms_full_card register_eval)
  have i3: "2 = length (takeWhile (\<lambda>k. k \<noteq> key_types (sign_with CKK_GOSTR3410) ! 0 \<and> \<not> k <s 0)
                     (key_types ((sign_with CKK_RSA)\<lparr>key_types := [0, 3]\<rparr>)))"
    by (simp add: k word_sless_alt)
  from register_keeps_lookup_unique [OF seq2, of "sign_with CKK_GOSTR3410" plain_env] f3 i3
  have "sc_pkcs11_register_mechanism plain_env full_card (Some (sign_with CKK_GOSTR3410)) =
         (if 2 < length (key_types ((sign_with CKK_RSA)\<lparr>key_types := [0, 3]\<rparr>))
          then Returned CKR_OK
                 (full_card\<lparr>mechanisms := (mechanisms full_card)
                    [0 := Some ((sign_with CKK_RSA)\<lparr>key_types := [0, 3]\<rparr>
                       \<lparr>mech_info :=
                          \<lparr>ulMinKeySize =
                             min (ulMinKeySize (mech_info ((sign_with CKK_RSA)\<lparr>key_types := [0, 3]\<rparr>)))
                                 (ulMinKeySize (mech_info (sign_with CKK_GOSTR3410))),
                           ulMaxKeySize =
                             max (ulMaxKeySize (mech_info ((sign_with CKK_RSA)\<lparr>key_types := [0, 3]\<rparr>)))
                                 (ulMaxKeySize (mech_info (sign_with CKK_GOSTR3410))),
                           flags = flags (mech_info ((sign_with CKK_RSA)\<lparr>key_types := [0, 3]\<rparr>)) OR
                                   flags (mech_info (sign_with CKK_GOSTR3410))\<rparr>,
                        key_types :=
                          (if key_types ((sign_with CKK_RSA)\<lparr>key_types := [0, 3]\<rparr>) ! 2 =
                              key_types (sign_with CKK_GOSTR3410) ! 0
                           then key_types ((sign_with CKK_RSA)\<lparr>key_types := [0, 3]\<rparr>)
                           else if 2 + 1 < length (key_types ((sign_with CKK_RSA)\<lparr>key_types := [0, 3]\<rparr>))
                           then (key_types ((sign_with CKK_RSA)\<lparr>key_types := [0, 3]\<rparr>))
                                  [2 := key_types (sign_with CKK_GOSTR3410) ! 0, 2 + 1 := - 1]
                           else (key_types ((sign_with CKK_RSA)\<lparr>key_types := [0, 3]\<rparr>))
                                  [2 := key_types (sign_with CKK_GOSTR3410) ! 0])\<rparr>)]\<rparr>)
          else Returned CKR_BUFFER_TOO_SMALL full_card)"
    by blast
  then have r3: "sc_pkcs11_register_mechanism plain_env full_card (Some (sign_with CKK_GOSTR3410)) =
     Returned CKR_BUFFER_TOO_SMALL full_card"
    by simp
  have nf: "sc_pkcs11_find_mechanism full_card (mech (sign_verify_with CKK_GOSTR3410))
      (lookup_flags (sign_verify_with CKK_GOSTR3410)) = None"
    by (simp add: mechanisms_full_card register_eval)
  have env: "realloc_ok plain_env"
    "sc_pkcs11_copy_mechanism plain_env (sign_verify_with CKK_GOSTR3410) =
       (CKR_OK, Some (sign_verify_with CKK_GOSTR3410))"
    by (simp_all add: plain_env_def sc_pkcs11_copy_mechanism_def example_defs)
  note t = register_keeps_lookup_unique [OF seq2, of "sign_verify_with CKK_GOSTR3410" plain_env]
  from t nf env
  have r4: "sc_pkcs11_register_mechanism plain_env full_card (Some (sign_verify_with CKK_GOSTR3410)) =
     Returned CKR_OK
       (full_card\<lparr>mechanisms := mechanisms full_card @ [Some (sign_verify_with CKK_GOSTR3410)]\<rparr>)"
    by simp
  have ids: "registered_ids (mechanisms full_card) = [1]"
    by (simp add: mechanisms_full_card registered_ids_def List.map_filter_simps example_defs)
  have me: "mech (sign_verify_with CKK_GOSTR3410) = 1" by (simp add: example_defs)
  from t r4 have "unshadowed (mechanisms (full_card\<lparr>mechanisms := mechanisms full_card @
                     [Some (sign_verify_with CKK_GOSTR3410)]\<rparr>)) \<and>
       registered_ids (mechanisms (full_card\<lparr>mechanisms := mechanisms full_card @
                     [Some (sign_verify_with CKK_GOSTR3410)]\<rparr>)) =
         (if sc_pkcs11_find_mechanism full_card (mech (sign_verify_with CKK_GOSTR3410))
               (lookup_flags (sign_verify_with CKK_GOSTR3410)) = None \<and> CKR_OK = CKR_OK
          then registered_ids (mechanisms full_card) @ [mech (sign_verify_with CKK_GOSTR3410)]
          else registered_ids (mechanisms full_card))"
    by blast
  with nf ids me
  have r5: "unshadowed (mechanisms full_card @ [Some (sign_verify_with CKK_GOSTR3410)])"
    "registered_ids (mechanisms full_card @ [Some (sign_verify_with CKK_GOSTR3410)]) = [1, 1]"
    by simp_all
  from seq1 seq2 f1 f2 k(1) r1 r2 r3 nf r4 r5 show ?thesis by simp
qed

text \<open>
  C2 as stated fails: the signing mechanism registered for GOST keys, then the same id
  registered for signing and verifying, are two descriptors with the id 1.
\<close>

theorem register_same_id_twice_counterexample:
  "map_option (registered_ids \<circ> mechanisms)
     (register_all empty_card
        [(plain_env, Some (sign_with CKK_GOSTR3410)),
         (plain_env, Some (sign_verify_with CKK_GOSTR3410))]) = Some [1, 1]"
  by (simp add: register_eval registered_ids_def List.map_filter_simps)

text \<open>
  C7, as the code has it. When the lookup for the id and the flags of the new descriptor
  finds a descriptor, the new key type is in none of its slots and no slot is free
  (negative), the call answers \<open>CKR_BUFFER_TOO_SMALL\<close> and the card, with the slots, the
  key-size range and the flags of that descriptor, is what it was.
\<close>

theorem register_without_free_slot:
  assumes "sc_pkcs11_find_mechanism p11card (mech mt) (lookup_flags mt) = Some (e, existing_mt)"
    and "key_types mt ! 0 \<notin> set (key_types existing_mt)"
    and "\<forall>k \<in> set (key_types existing_mt). \<not> k <s 0"
  shows "sc_pkcs11_register_mechanism env p11card (Some mt) = Returned CKR_BUFFER_TOO_SMALL p11card"
  using register_found [OF assms(1), of env]
    add_key_type_None [of "key_types mt ! 0" 0 "key_types existing_mt"] assms(2,3)
  by simp

theorem register_without_free_slot_witness:
  "sc_pkcs11_find_mechanism full_card (mech (sign_with CKK_GOSTR3410))
     (lookup_flags (sign_with CKK_GOSTR3410)) = Some (0, (sign_with CKK_RSA)\<lparr>key_types := [0, 3]\<rparr>) \<and>
   key_types (sign_with CKK_GOSTR3410) ! 0 = 0x30 \<and>
   sc_pkcs11_register_mechanism plain_env full_card (Some (sign_with CKK_GOSTR3410)) =
     Returned CKR_BUFFER_TOO_SMALL full_card"
proof -
  have f: "sc_pkcs11_find_mechanism full_card (mech (sign_with CKK_GOSTR3410))
     (lookup_flags (sign_with CKK_GOSTR3410)) = Some (0, (sign_with CKK_RSA)\<lparr>key_types := [0, 3]\<rparr>)"
    by (simp add: mechanisms_full_card register_eval)
  have k: "key_types (sign_with CKK_GOSTR3410) ! 0 = 0x30" by (simp add: example_defs)
  have "key_types (sign_with CKK_GOSTR3410) ! 0 \<notin> set (key_types ((sign_with CKK_RSA)\<lparr>key_types := [0, 3]\<rparr>))"
    by (simp add: k)
  moreover have "\<forall>k \<in> set (key_types ((sign_with CKK_RSA)\<lparr>key_types := [0, 3]\<rparr>)). \<not> k <s 0"
    by (simp add: word_sless_alt)
  ultimately show ?thesis
    using register_without_free_slot [OF f, of plain_env] f k by simp
qed

text \<open>
  C7 as stated fails: the id 1 is registered, the key type GOST is in neither slot of its
  descriptor and both slots are taken, yet registering the id for signing and verifying with
  a GOST key succeeds and appends a second descriptor.
\<close>

theorem register_full_other_flags_counterexample:
  "registered_ids (mechanisms full_card) = [1] \<and>
   map (map_option key_types) (mechanisms full_card) = [Some [0, 3]] \<and>
   mech (sign_verify_with CKK_GOSTR3410) = 1 \<and>
   key_types (sign_verify_with CKK_GOSTR3410) ! 0 = 0x30 \<and>
   sc_pkcs11_register_mechanism plain_env full_card (Some (sign_verify_with CKK_GOSTR3410)) =
     Returned CKR_OK
       (full_card\<lparr>mechanisms := mechanisms full_card @ [Some (sign_verify_with CKK_GOSTR3410)]\<rparr>)"
  by (simp add: mechanisms_full_card register_eval registered_ids_def List.map_filter_simps)

section \<open>Final and one-shot calls: when the handle stays\<close>

lemmas session_defs =
  session_get_operation_def session_stop_operation_def put_operation_def
  session_start_operation_def sc_pkcs11_new_operation_def session_card_def

lemmas token_defs =
  crypt_info_def wrap_info_def unwrap_info_def token_card_def fresh_session_def answering_def
  plain_key_def validating_key_def mechanism_1_def null_buffer_def crypt_handle_def
  digest_type_def digest_handle_def busy_session_def mechanism_7_def mechanism_8_def
  oversize_mechanism_def one_byte_buffer_def sc_pkcs11_new_fw_mechanism_def calloc_mechanism_type_def replicate_two
  CKF_defs CKK_defs sc_pkcs11_find_mechanism_def validate_key_type_def word_sless_alt

text \<open>
  What each final and one-shot call does with an installed handle, by the code \<open>rv\<close> its
  hook answers. The code returned is \<open>rv\<close> narrowed to \<^verbatim>\<open>int\<close>, except in one-shot
  decrypt, which returns \<open>rv\<close> itself.
\<close>

lemma sign_final_installed:
  assumes "operation session SC_PKCS11_OPERATION_SIGN = Some op"
    and "sign_final (op_type op) = Some f"
    and "call_op_out env f op out = (rv, op1, out1)"
  shows "\<exists>session'.
           sc_pkcs11_sign_final env session out = Inr (int_cast rv, session', out1) \<and>
           (operation session' SC_PKCS11_OPERATION_SIGN \<noteq> None \<longleftrightarrow>
              rv = CKR_BUFFER_TOO_SMALL \<or> out_ptr out = None)"
  using assms
  by (auto simp: sc_pkcs11_sign_final_def session_defs Let_def)

lemma sign_final_without_hook:
  assumes "operation session SC_PKCS11_OPERATION_SIGN = Some op"
    and "sign_final (op_type op) = None"
  shows "\<exists>session'.
           sc_pkcs11_sign_final env session out = Inr (CKR_KEY_TYPE_INCONSISTENT, session', out) \<and>
           (operation session' SC_PKCS11_OPERATION_SIGN \<noteq> None \<longleftrightarrow> out_ptr out = None)"
  using assms
  by (auto simp: sc_pkcs11_sign_final_def session_defs Let_def)

lemma decr_installed:
  assumes "operation session SC_PKCS11_OPERATION_DECRYPT = Some op"
    and "decrypt_oneshot (op_type op) = Some f"
    and "call_op_in_out env f op inp out = (rv, op1, out1)"
  shows "\<exists>session'.
           sc_pkcs11_decr env session inp out = Inr (rv, session', out1) \<and>
           (operation session' SC_PKCS11_OPERATION_DECRYPT \<noteq> None \<longleftrightarrow>
              rv = CKR_BUFFER_TOO_SMALL \<or> out_ptr out = None)"
  using assms
  by (auto simp: sc_pkcs11_decr_def session_defs Let_def)

lemma encr_final_installed:
  assumes "operation session SC_PKCS11_OPERATION_ENCRYPT = Some op"
    and "encrypt_final (op_type op) = Some f"
    and "call_op_out env f op out = (rv, op1, out1)"
  shows "\<exists>session'.
           sc_pkcs11_encr_final env session out = Inr (int_cast rv, session', out1) \<and>
           (operation session' SC_PKCS11_OPERATION_ENCRYPT \<noteq> None \<longleftrightarrow>
              (if out_ptr out = None then rv = CKR_OK else rv = CKR_BUFFER_TOO_SMALL))"
  using assms
  by (auto simp: sc_pkcs11_encr_final_def session_defs Let_def)

lemma encr_installed:
  assumes "operation session SC_PKCS11_OPERATION_ENCRYPT = Some op"
    and "encrypt_oneshot (op_type op) = Some f"
    and "call_op_in_out env f op inp out = (rv, op1, out1)"
  shows "\<exists>session'.
           sc_pkcs11_encr env session inp out = Inr (int_cast rv, session', out1) \<and>
           (operation session' SC_PKCS11_OPERATION_ENCRYPT \<noteq> None \<longleftrightarrow>
              (if out_ptr out = None then rv = CKR_OK else rv = CKR_BUFFER_TOO_SMALL))"
  using assms
  by (auto simp: sc_pkcs11_encr_def session_defs Let_def)

lemma decr_final_installed:
  assumes "operation session SC_PKCS11_OPERATION_DECRYPT = Some op"
    and "decrypt_final (op_type op) = Some f"
    and "call_op_out env f op out = (rv, op1, out1)"
  shows "\<exists>session'.
           sc_pkcs11_decr_final env session out = Inr (int_cast rv, session', out1) \<and>
           (operation session' SC_PKCS11_OPERATION_DECRYPT \<noteq> None \<longleftrightarrow>
              (if out_ptr out = None then rv = CKR_OK else rv = CKR_BUFFER_TOO_SMALL))"
  using assms
  by (auto simp: sc_pkcs11_decr_final_def session_defs Let_def)

lemma md_final_installed:
  assumes "operation session SC_PKCS11_OPERATION_DIGEST = Some op"
    and "md_final (op_type op) = Some f"
    and "call_op_out env f op (if out_ptr out = None then out\<lparr>out_len := 0\<rparr> else out) =
           (rv, op1, out1)"
  shows "\<exists>session'.
           sc_pkcs11_md_final env session out =
             Inr (if rv = CKR_BUFFER_TOO_SMALL \<and> out_ptr out = None then CKR_OK else int_cast rv,
                  session', out1) \<and>
           (operation session' SC_PKCS11_OPERATION_DIGEST \<noteq> None \<longleftrightarrow>
              rv = CKR_BUFFER_TOO_SMALL)"
  using assms
  by (auto simp: sc_pkcs11_md_final_def session_defs Let_def)

text \<open>
  The test is made on the code the hook answers and the return narrows it: a hook that
  answers \<open>0x100000150\<close> into a non-null buffer makes sign-final return
  \<open>CKR_BUFFER_TOO_SMALL\<close> with the handle uninstalled.
\<close>

lemma sign_final_narrowed_code:
  "sc_pkcs11_sign_final (answering 0x100000150) busy_session one_byte_buffer =
     Inr (CKR_BUFFER_TOO_SMALL,
          session_stop_operation busy_session SC_PKCS11_OPERATION_SIGN, one_byte_buffer)"
  by (simp add: sc_pkcs11_sign_final_def session_defs token_defs int_cast_def fun_upd_twist)

text \<open>
  C1 fails for sign-final and one-shot decrypt. With a null output buffer and a hook that
  answers the hard error \<open>CKR_FUNCTION_FAILED\<close>, sign-final and one-shot decrypt return
  that error and leave the handle installed; encrypt-final, decrypt-final and digest-final,
  on the same input, uninstall it.
\<close>

theorem sign_final_null_buffer_error_keeps_handle:
  "operation busy_session SC_PKCS11_OPERATION_SIGN = Some crypt_handle \<and>
   sc_pkcs11_sign_final (answering CKR_FUNCTION_FAILED) busy_session null_buffer =
     Inr (CKR_FUNCTION_FAILED, busy_session, null_buffer) \<and>
   operation busy_session SC_PKCS11_OPERATION_DECRYPT = Some crypt_handle \<and>
   sc_pkcs11_decr (answering CKR_FUNCTION_FAILED) busy_session (None, 0) null_buffer =
     Inr (CKR_FUNCTION_FAILED, busy_session, null_buffer) \<and>
   operation busy_session SC_PKCS11_OPERATION_ENCRYPT = Some crypt_handle \<and>
   sc_pkcs11_encr_final (answering CKR_FUNCTION_FAILED) busy_session null_buffer =
     Inr (CKR_FUNCTION_FAILED,
          session_stop_operation busy_session SC_PKCS11_OPERATION_ENCRYPT, null_buffer) \<and>
   operation (session_stop_operation busy_session SC_PKCS11_OPERATION_ENCRYPT)
     SC_PKCS11_OPERATION_ENCRYPT = None \<and>
   sc_pkcs11_decr_final (answering CKR_FUNCTION_FAILED) busy_session null_buffer =
     Inr (CKR_FUNCTION_FAILED,
          session_stop_operation busy_session SC_PKCS11_OPERATION_DECRYPT, null_buffer) \<and>
   operation (session_stop_operation busy_session SC_PKCS11_OPERATION_DECRYPT)
     SC_PKCS11_OPERATION_DECRYPT = None \<and>
   operation busy_session SC_PKCS11_OPERATION_DIGEST = Some digest_handle \<and>
   sc_pkcs11_md_final (answering CKR_FUNCTION_FAILED) busy_session null_buffer =
     Inr (CKR_FUNCTION_FAILED,
          session_stop_operation busy_session SC_PKCS11_OPERATION_DIGEST, null_buffer) \<and>
   operation (session_stop_operation busy_session SC_PKCS11_OPERATION_DIGEST)
     SC_PKCS11_OPERATION_DIGEST = None"
  by (simp add: sc_pkcs11_encr_final_def sc_pkcs11_sign_final_def sc_pkcs11_decr_def
      sc_pkcs11_decr_final_def sc_pkcs11_md_final_def session_defs token_defs fun_upd_twist)

section \<open>Init calls\<close>

lemma sign_init_oversize_parameter:
  assumes "session_card session_ptr = Some (session, token)"
    and "sc_pkcs11_find_mechanism token (mechanism pMechanism) CKF_SIGN = Some (i, mt)"
    and "validate_key_type mt key_type = CKR_OK"
    and "pParameter pMechanism \<noteq> None"
    and "sizeof_mechanism_params env < unat (ulParameterLen pMechanism)"
  shows "sc_pkcs11_sign_init env session_ptr pMechanism key key_type =
           Inr (CKR_ARGUMENTS_BAD, Some session)"
  using assms by (simp add: sc_pkcs11_sign_init_def)

lemma oversize_parameter_overruns:
  assumes "session_start_operation env session kind mt = Inr (session1, operation0)"
    and "pParameter pMechanism \<noteq> None"
    and "sizeof_mechanism_params env < unat (ulParameterLen pMechanism)"
  shows "copy_mechanism pMechanism operation0 = Inl Out_of_bounds"
  using assms
  by (auto simp: copy_mechanism_def session_start_operation_def sc_pkcs11_new_operation_def
      Let_def split: if_splits option.splits)

lemma sign_init_hook_failure_uninstalls:
  assumes "sc_pkcs11_sign_init env (Some session) pMechanism key key_type = Inr (rv, Some session')"
    and "rv \<noteq> CKR_OK"
    and "operation session SC_PKCS11_OPERATION_SIGN = None"
  shows "operation session' SC_PKCS11_OPERATION_SIGN = None"
  using assms
  by (auto simp: sc_pkcs11_sign_init_def session_defs Let_def
      split: option.splits prod.splits if_splits sum.splits)

lemma verif_init_hook_failure_uninstalls:
  assumes "sc_pkcs11_verif_init env (Some session) pMechanism key key_type = Inr (rv, Some session')"
    and "rv \<noteq> CKR_OK"
    and "operation session SC_PKCS11_OPERATION_VERIFY = None"
  shows "operation session' SC_PKCS11_OPERATION_VERIFY = None"
  using assms
  by (auto simp: sc_pkcs11_verif_init_def session_defs Let_def
      split: option.splits prod.splits if_splits sum.splits)

lemma encr_init_hook_failure_uninstalls:
  assumes "sc_pkcs11_encr_init env (Some session) pMechanism key key_type = Inr (rv, Some session')"
    and "rv \<noteq> CKR_OK"
    and "operation session SC_PKCS11_OPERATION_ENCRYPT = None"
  shows "operation session' SC_PKCS11_OPERATION_ENCRYPT = None"
  using assms
  by (auto simp: sc_pkcs11_encr_init_def session_defs Let_def
      split: option.splits prod.splits if_splits sum.splits)

text \<open>
  C3 holds for sign-init, verify-init and encrypt-init (the three lemmas above) and fails
  for decrypt-init: with a key whose parameter validation answers \<open>CKR_ARGUMENTS_BAD\<close>,
  decrypt-init returns that code and the decrypt handle it installed stays installed;
  encrypt-init on the same input uninstalls its handle.
\<close>

theorem decr_init_failed_validation_keeps_handle:
  "operation fresh_session SC_PKCS11_OPERATION_DECRYPT = None \<and>
   sc_pkcs11_decr_init (answering CKR_OK) (Some fresh_session) mechanism_1
      (validating_key CKR_ARGUMENTS_BAD) CKK_RSA =
     Inr (CKR_ARGUMENTS_BAD,
          Some (put_operation fresh_session SC_PKCS11_OPERATION_DECRYPT crypt_handle)) \<and>
   operation (put_operation fresh_session SC_PKCS11_OPERATION_DECRYPT crypt_handle)
     SC_PKCS11_OPERATION_DECRYPT = Some crypt_handle \<and>
   sc_pkcs11_encr_init (answering CKR_OK) (Some fresh_session) mechanism_1
      (validating_key CKR_ARGUMENTS_BAD) CKK_RSA =
     Inr (CKR_ARGUMENTS_BAD, Some fresh_session)"
  by (simp add: sc_pkcs11_decr_init_def sc_pkcs11_encr_init_def copy_mechanism_def
      session_defs token_defs fun_upd_twist)

text \<open>
  The same function loses a failure of the decrypt-init hook when the key's parameter
  validation succeeds: the call returns \<open>CKR_OK\<close> with the handle installed.
\<close>

lemma decr_init_hook_failure_overwritten:
  "sc_pkcs11_decr_init (answering CKR_FUNCTION_FAILED) (Some fresh_session) mechanism_1
      (validating_key CKR_OK) CKK_RSA =
     Inr (CKR_OK, Some (put_operation fresh_session SC_PKCS11_OPERATION_DECRYPT crypt_handle))"
  by (simp add: sc_pkcs11_decr_init_def copy_mechanism_def session_defs token_defs)

lemma own_flag_resolution:
  assumes "session_card session_ptr = Some (session, token)"
  shows
    "sc_pkcs11_find_mechanism token (mechanism pMechanism) CKF_DIGEST = None \<Longrightarrow>
       sc_pkcs11_md_init env session_ptr pMechanism = Inr (CKR_MECHANISM_INVALID, Some session)"
    "sc_pkcs11_find_mechanism token (mechanism pMechanism) CKF_SIGN = None \<Longrightarrow>
       sc_pkcs11_sign_init env session_ptr pMechanism key key_type =
         Inr (CKR_MECHANISM_INVALID, Some session)"
    "sc_pkcs11_find_mechanism token (mechanism pMechanism) CKF_VERIFY = None \<Longrightarrow>
       sc_pkcs11_verif_init env session_ptr pMechanism key key_type =
         Inr (CKR_MECHANISM_INVALID, Some session)"
    "sc_pkcs11_find_mechanism token (mechanism pMechanism) CKF_ENCRYPT = None \<Longrightarrow>
       sc_pkcs11_encr_init env session_ptr pMechanism key key_type =
         Inr (CKR_MECHANISM_INVALID, Some session)"
    "sc_pkcs11_find_mechanism token (mechanism pMechanism) CKF_DECRYPT = None \<Longrightarrow>
       sc_pkcs11_decr_init env session_ptr pMechanism key key_type =
         Inr (CKR_MECHANISM_INVALID, Some session)"
    "sc_pkcs11_find_mechanism token (mechanism pMechanism) CKF_UNWRAP = None \<Longrightarrow>
       sc_pkcs11_unwrap env session_ptr pMechanism key key_type inp target =
         Inr (CKR_MECHANISM_INVALID, Some session)"
    "sc_pkcs11_find_mechanism token (mechanism pMechanism) CKF_DERIVE = None \<Longrightarrow>
       sc_pkcs11_deri env session_ptr pMechanism key key_type =
         Inr (CKR_MECHANISM_INVALID, Some session, None)"
  using assms
  by (simp_all add: sc_pkcs11_md_init_def sc_pkcs11_sign_init_def sc_pkcs11_verif_init_def
      sc_pkcs11_encr_init_def sc_pkcs11_decr_init_def sc_pkcs11_unwrap_def sc_pkcs11_deri_def)

lemma wrap_invalid_without_unwrap_flag:
  assumes "session_card session_ptr = Some (session, token)"
    and "sc_pkcs11_find_mechanism token (mechanism pMechanism) CKF_UNWRAP = None"
  shows "sc_pkcs11_wrap env session_ptr pMechanism key key_type target out =
           Inr (CKR_MECHANISM_INVALID, Some session, out)"
  using assms by (simp add: sc_pkcs11_wrap_def)

text \<open>
  C5 fails for wrap, which resolves its descriptor with the flag of unwrap. Mechanism 7 of
  the token carries the wrap flag (and no other): wrap answers \<open>CKR_MECHANISM_INVALID\<close>.
  Mechanism 8 carries the unwrap flag only, so its wrap hook is unset: wrap resolves it,
  installs a handle and calls through the null pointer.
\<close>

theorem wrap_resolved_with_unwrap_flag:
  "sc_pkcs11_find_mechanism token_card 7 CKF_WRAP \<noteq> None \<and>
   sc_pkcs11_wrap (answering CKR_OK) (Some fresh_session) mechanism_7 plain_key CKK_RSA
       plain_key null_buffer =
     Inr (CKR_MECHANISM_INVALID, Some fresh_session, null_buffer) \<and>
   sc_pkcs11_find_mechanism token_card 8 CKF_WRAP = None \<and>
   sc_pkcs11_wrap (answering CKR_OK) (Some fresh_session) mechanism_8 plain_key CKK_RSA
       plain_key null_buffer =
     Inl Null_call"
  by (simp add: sc_pkcs11_wrap_def session_defs token_defs)

text \<open>
  C6 holds for sign-init (lemma \<open>sign_init_oversize_parameter\<close>) and fails for
  verify-init, encrypt-init and decrypt-init, which have no length check: with a 17-byte
  parameter and a 16-byte \<^verbatim>\<open>mechanism_params\<close> they install the handle and copy past the
  end of the union, where sign-init answers \<open>CKR_ARGUMENTS_BAD\<close> and leaves the session.
\<close>

theorem oversize_parameter_unchecked:
  "pParameter oversize_mechanism \<noteq> None \<and>
   sizeof_mechanism_params (answering CKR_OK) < unat (ulParameterLen oversize_mechanism) \<and>
   sc_pkcs11_verif_init (answering CKR_OK) (Some fresh_session) oversize_mechanism plain_key
       CKK_RSA = Inl Out_of_bounds \<and>
   sc_pkcs11_encr_init (answering CKR_OK) (Some fresh_session) oversize_mechanism plain_key
       CKK_RSA = Inl Out_of_bounds \<and>
   sc_pkcs11_decr_init (answering CKR_OK) (Some fresh_session) oversize_mechanism plain_key
       CKK_RSA = Inl Out_of_bounds \<and>
   sc_pkcs11_sign_init (answering CKR_OK) (Some fresh_session) oversize_mechanism plain_key
       CKK_RSA = Inr (CKR_ARGUMENTS_BAD, Some fresh_session)"
  by (simp add: sc_pkcs11_encr_init_def sc_pkcs11_verif_init_def sc_pkcs11_decr_init_def
      sc_pkcs11_sign_init_def copy_mechanism_def session_defs token_defs)

section \<open>The composed sign-init\<close>







section \<open>The raw data, from the updates to the key's sign call\<close>












section \<open>Appending nothing\<close>

lemma append_zero_length:
  "signature_data_buffer_append env mem (Some data) (in_ptr, 0) = Inr (CKR_OK, mem, Some data)"
  by (simp add: signature_data_buffer_append_def)

text \<open>
  C10. On the raw-accumulation path (the operation data has no digest handle), a sign-update
  or verify-update with a chunk of length 0 returns \<open>CKR_OK\<close> and leaves the handle and the
  memory as they were: the buffer pointer, its length, the live blocks with their contents,
  and the record of allocations and zeroizing releases are all unchanged.
\<close>

theorem zero_length_update_identity:
  assumes "priv_data op = Some data" and "data_md data = None"
  shows "sc_pkcs11_signature_update env mem op (in_ptr, 0) = Inr (CKR_OK, mem, op) \<and>
         sc_pkcs11_verify_update env mem op (in_ptr, 0) = Inr (CKR_OK, mem, op) \<and>
         signature_data_buffer_append env mem (priv_data op) (in_ptr, 0) =
           Inr (CKR_OK, mem, priv_data op)"
  using assms
  by (simp add: sc_pkcs11_signature_update_def sc_pkcs11_verify_update_def append_zero_length)

theorem zero_length_update_identity_witness:
  "priv_data (raw_handle plain_key) = Some (fresh_data plain_key) \<and>
   data_md (fresh_data plain_key :: (nat, nat) operation_data) = None \<and>
   sc_pkcs11_signature_update digest_env empty_memory (raw_handle plain_key) (Some [1, 2], 0) =
     Inr (CKR_OK, empty_memory, raw_handle plain_key) \<and>
   sc_pkcs11_verify_update digest_env empty_memory (raw_handle plain_key) (None, 0) =
     Inr (CKR_OK, empty_memory, raw_handle plain_key)"
proof -
  have p: "priv_data (raw_handle plain_key) = Some (fresh_data plain_key)"
    by (simp add: raw_handle_def)
  have m: "data_md (fresh_data plain_key :: (nat, nat) operation_data) = None"
    by (simp add: fresh_data_def)
  from zero_length_update_identity [OF p m, of digest_env empty_memory "Some [1, 2]"]
    zero_length_update_identity [OF p m, of digest_env empty_memory None] p m
  show ?thesis by simp
qed

section \<open>The signature size\<close>

lemma byte_length:
  "unat (bits :: 64 word) + 7 < 2 ^ 64 \<Longrightarrow> unat ((bits + 7) div 8) = (unat bits + 7) div 8"
  by (simp add: unat_word_ariths unat_div)

lemma doubled_byte_length:
  "unat (bits :: 64 word) + 7 < 2 ^ 64 \<Longrightarrow>
     unat ((bits + 7) div 8 * 2) = 2 * ((unat bits + 7) div 8)"
  by (simp add: unat_word_ariths unat_div)

lemma signature_size_with_bits:
  assumes "priv_data op = Some data"
    and "get_attribute (ops (data_key data)) CKA_KEY_TYPE = (CKR_OK, key_type)"
    and "get_attribute (ops (data_key data)) CKA_MODULUS_BITS = (rv, bits)"
  shows "sc_pkcs11_signature_size op pLength =
     (if key_type = CKK_RSA
      then (if rv = CKR_OK then Inr (CKR_OK, (bits + 7) div 8) else Inr (int_cast rv, pLength))
      else if key_type \<in> {CKK_EC, CKK_EC_EDWARDS, CKK_EC_MONTGOMERY, CKK_GOSTR3410}
      then (if rv = CKR_OK then Inr (CKR_OK, (bits + 7) div 8 * 2)
            else Inr (int_cast rv, pLength))
      else Inr (CKR_MECHANISM_INVALID, pLength))"
  using assms
  by (auto simp: sc_pkcs11_signature_size_def Let_def CKK_defs)

lemma signature_size_other:
  assumes "priv_data op = Some data"
    and "get_attribute (ops (data_key data)) CKA_KEY_TYPE = (CKR_OK, key_type)"
    and "key_type \<notin> {CKK_RSA, CKK_EC, CKK_EC_EDWARDS, CKK_EC_MONTGOMERY, CKK_GOSTR3410}"
  shows "sc_pkcs11_signature_size op pLength = Inr (CKR_MECHANISM_INVALID, pLength)"
  using assms
  by (auto simp: sc_pkcs11_signature_size_def Let_def CKK_defs)

text \<open>
  C8. When the key of the sign operation answers its key type:
  \<^item> for an RSA key that answers its number of bits, the size is \<open>(bits + 7) div 8\<close>, the bits
    rounded up to bytes as long as \<open>bits + 7\<close> does not wrap \<^verbatim>\<open>CK_ULONG\<close>: 256 for 2048
    bits;
  \<^item> for a key of an EC family (EC, Edwards, Montgomery) or a GOST key that answers its
    number of bits, the size is that number of bytes doubled: 64 for 256 bits;
  \<^item> when a key of one of these types fails to answer its number of bits, that failure is
    returned and the length is left untouched;
  \<^item> any other key type gives \<open>CKR_MECHANISM_INVALID\<close> and leaves the length untouched,
    whatever the key would answer for its number of bits (it is not asked).
\<close>

theorem signature_size_by_key_type:
  assumes "priv_data op = Some data"
    and "get_attribute (ops (data_key data)) CKA_KEY_TYPE = (CKR_OK, key_type)"
  shows
   "(\<forall>bits. key_type = CKK_RSA \<and>
        get_attribute (ops (data_key data)) CKA_MODULUS_BITS = (CKR_OK, bits) \<longrightarrow>
        sc_pkcs11_signature_size op pLength = Inr (CKR_OK, (bits + 7) div 8) \<and>
        (unat bits + 7 < 2 ^ 64 \<longrightarrow> unat ((bits + 7) div 8) = (unat bits + 7) div 8) \<and>
        (bits = 2048 \<longrightarrow> sc_pkcs11_signature_size op pLength = Inr (CKR_OK, 256))) \<and>
    (\<forall>bits. key_type \<in> {CKK_EC, CKK_EC_EDWARDS, CKK_EC_MONTGOMERY, CKK_GOSTR3410} \<and>
        get_attribute (ops (data_key data)) CKA_MODULUS_BITS = (CKR_OK, bits) \<longrightarrow>
        sc_pkcs11_signature_size op pLength = Inr (CKR_OK, (bits + 7) div 8 * 2) \<and>
        (unat bits + 7 < 2 ^ 64 \<longrightarrow>
           unat ((bits + 7) div 8 * 2) = 2 * ((unat bits + 7) div 8)) \<and>
        (bits = 256 \<longrightarrow> sc_pkcs11_signature_size op pLength = Inr (CKR_OK, 64))) \<and>
    (\<forall>rv bits.
        key_type \<in> {CKK_RSA, CKK_EC, CKK_EC_EDWARDS, CKK_EC_MONTGOMERY, CKK_GOSTR3410} \<and>
        get_attribute (ops (data_key data)) CKA_MODULUS_BITS = (rv, bits) \<and> rv \<noteq> CKR_OK \<longrightarrow>
        sc_pkcs11_signature_size op pLength = Inr (int_cast rv, pLength)) \<and>
    (key_type \<notin> {CKK_RSA, CKK_EC, CKK_EC_EDWARDS, CKK_EC_MONTGOMERY, CKK_GOSTR3410} \<longrightarrow>
       sc_pkcs11_signature_size op pLength = Inr (CKR_MECHANISM_INVALID, pLength))"
proof (intro conjI allI impI)
  fix bits
  assume h: "key_type = CKK_RSA \<and>
        get_attribute (ops (data_key data)) CKA_MODULUS_BITS = (CKR_OK, bits)"
  then have b: "get_attribute (ops (data_key data)) CKA_MODULUS_BITS = (CKR_OK, bits)" by simp
  from h signature_size_with_bits [OF assms b, of pLength]
  show s: "sc_pkcs11_signature_size op pLength = Inr (CKR_OK, (bits + 7) div 8)" by simp
  show "bits = 2048 \<Longrightarrow> sc_pkcs11_signature_size op pLength = Inr (CKR_OK, 256)"
    using s by simp
  show "unat bits + 7 < 2 ^ 64 \<Longrightarrow> unat ((bits + 7) div 8) = (unat bits + 7) div 8"
    by (rule byte_length)
next
  fix bits
  assume h: "key_type \<in> {CKK_EC, CKK_EC_EDWARDS, CKK_EC_MONTGOMERY, CKK_GOSTR3410} \<and>
        get_attribute (ops (data_key data)) CKA_MODULUS_BITS = (CKR_OK, bits)"
  then have b: "get_attribute (ops (data_key data)) CKA_MODULUS_BITS = (CKR_OK, bits)" by simp
  from h signature_size_with_bits [OF assms b, of pLength]
  show s: "sc_pkcs11_signature_size op pLength = Inr (CKR_OK, (bits + 7) div 8 * 2)"
    by (auto simp: CKK_defs)
  show "bits = 256 \<Longrightarrow> sc_pkcs11_signature_size op pLength = Inr (CKR_OK, 64)"
    using s by simp
  show "unat bits + 7 < 2 ^ 64 \<Longrightarrow> unat ((bits + 7) div 8 * 2) = 2 * ((unat bits + 7) div 8)"
    by (rule doubled_byte_length)
next
  fix rv bits
  assume h: "key_type \<in> {CKK_RSA, CKK_EC, CKK_EC_EDWARDS, CKK_EC_MONTGOMERY, CKK_GOSTR3410} \<and>
        get_attribute (ops (data_key data)) CKA_MODULUS_BITS = (rv, bits) \<and> rv \<noteq> CKR_OK"
  then have b: "get_attribute (ops (data_key data)) CKA_MODULUS_BITS = (rv, bits)" by simp
  from h signature_size_with_bits [OF assms b, of pLength]
  show "sc_pkcs11_signature_size op pLength = Inr (int_cast rv, pLength)"
    by (auto simp: CKK_defs)
next
  assume "key_type \<notin> {CKK_RSA, CKK_EC, CKK_EC_EDWARDS, CKK_EC_MONTGOMERY, CKK_GOSTR3410}"
  from signature_size_other [OF assms this]
  show "sc_pkcs11_signature_size op pLength = Inr (CKR_MECHANISM_INVALID, pLength)" .
qed

theorem signature_size_by_key_type_witness:
  "sc_pkcs11_signature_size (raw_handle (attribute_key CKK_RSA 2048)) 0 = Inr (CKR_OK, 256) \<and>
   sc_pkcs11_signature_size (raw_handle (attribute_key CKK_RSA 1023)) 0 = Inr (CKR_OK, 128) \<and>
   sc_pkcs11_signature_size (raw_handle (attribute_key CKK_EC 256)) 0 = Inr (CKR_OK, 64) \<and>
   sc_pkcs11_signature_size (raw_handle (attribute_key CKK_EC 521)) 0 = Inr (CKR_OK, 132) \<and>
   sc_pkcs11_signature_size (raw_handle (attribute_key CKK_EC_EDWARDS 256)) 0 = Inr (CKR_OK, 64) \<and>
   sc_pkcs11_signature_size (raw_handle (attribute_key CKK_EC_MONTGOMERY 256)) 0 =
     Inr (CKR_OK, 64) \<and>
   sc_pkcs11_signature_size (raw_handle (attribute_key CKK_GOSTR3410 512)) 0 =
     Inr (CKR_OK, 128) \<and>
   sc_pkcs11_signature_size (raw_handle (typed_key CKK_RSA)) 5 =
     Inr (CKR_ATTRIBUTE_TYPE_INVALID, 5) \<and>
   get_attribute (ops (typed_key 0x1F)) CKA_MODULUS_BITS = (CKR_ATTRIBUTE_TYPE_INVALID, 0) \<and>
   sc_pkcs11_signature_size (raw_handle (typed_key 0x1F)) 5 = Inr (CKR_MECHANISM_INVALID, 5)"
proof -
  have p: "priv_data (raw_handle key) = Some (fresh_data key)" for key
    by (simp add: raw_handle_def)
  have a: "get_attribute
             (ops (data_key (fresh_data (attribute_key kt bits) :: (nat, nat) operation_data)))
             CKA_KEY_TYPE = (CKR_OK, kt)"
    and b: "get_attribute
             (ops (data_key (fresh_data (attribute_key kt bits) :: (nat, nat) operation_data)))
             CKA_MODULUS_BITS = (CKR_OK, bits)" for kt bits
    by (simp_all add: fresh_data_def attribute_key_def CKA_KEY_TYPE_def CKA_MODULUS_BITS_def)
  have c: "get_attribute (ops (data_key (fresh_data (typed_key kt) :: (nat, nat) operation_data)))
             CKA_KEY_TYPE = (CKR_OK, kt)"
    and d: "get_attribute (ops (data_key (fresh_data (typed_key kt) :: (nat, nat) operation_data)))
             CKA_MODULUS_BITS = (CKR_ATTRIBUTE_TYPE_INVALID, 0)"
    and d': "get_attribute (ops (typed_key kt)) CKA_MODULUS_BITS = (CKR_ATTRIBUTE_TYPE_INVALID, 0)"
    for kt
    by (simp_all add: fresh_data_def typed_key_def CKA_KEY_TYPE_def CKA_MODULUS_BITS_def)
  from signature_size_by_key_type [OF p a, of CKK_RSA 2048 0] b [of CKK_RSA 2048]
  have r1: "sc_pkcs11_signature_size (raw_handle (attribute_key CKK_RSA 2048)) 0 =
              Inr (CKR_OK, 256)"
    by (clarsimp simp: CKK_defs)
  from signature_size_by_key_type [OF p a, of CKK_RSA 1023 0] b [of CKK_RSA 1023]
  have r2: "sc_pkcs11_signature_size (raw_handle (attribute_key CKK_RSA 1023)) 0 =
              Inr (CKR_OK, 128)"
    by (clarsimp simp: CKK_defs)
  from signature_size_by_key_type [OF p a, of CKK_EC 256 0] b [of CKK_EC 256]
  have r3: "sc_pkcs11_signature_size (raw_handle (attribute_key CKK_EC 256)) 0 = Inr (CKR_OK, 64)"
    by (clarsimp simp: CKK_defs)
  from signature_size_by_key_type [OF p a, of CKK_EC 521 0] b [of CKK_EC 521]
  have r4: "sc_pkcs11_signature_size (raw_handle (attribute_key CKK_EC 521)) 0 = Inr (CKR_OK, 132)"
    by (clarsimp simp: CKK_defs)
  from signature_size_by_key_type [OF p a, of CKK_EC_EDWARDS 256 0] b [of CKK_EC_EDWARDS 256]
  have r5: "sc_pkcs11_signature_size (raw_handle (attribute_key CKK_EC_EDWARDS 256)) 0 =
              Inr (CKR_OK, 64)"
    by (clarsimp simp: CKK_defs)
  from signature_size_by_key_type [OF p a, of CKK_EC_MONTGOMERY 256 0]
    b [of CKK_EC_MONTGOMERY 256]
  have r6: "sc_pkcs11_signature_size (raw_handle (attribute_key CKK_EC_MONTGOMERY 256)) 0 =
              Inr (CKR_OK, 64)"
    by (clarsimp simp: CKK_defs)
  from signature_size_by_key_type [OF p a, of CKK_GOSTR3410 512 0] b [of CKK_GOSTR3410 512]
  have r7: "sc_pkcs11_signature_size (raw_handle (attribute_key CKK_GOSTR3410 512)) 0 =
              Inr (CKR_OK, 128)"
    by (clarsimp simp: CKK_defs)
  from signature_size_by_key_type [OF p c, of CKK_RSA 5] d [of CKK_RSA]
  have r8: "sc_pkcs11_signature_size (raw_handle (typed_key CKK_RSA)) 5 =
              Inr (CKR_ATTRIBUTE_TYPE_INVALID, 5)"
    by (clarsimp simp: CKK_defs)
  from signature_size_by_key_type [OF p c, of "0x1F" 5]
  have r9: "sc_pkcs11_signature_size (raw_handle (typed_key 0x1F)) 5 =
              Inr (CKR_MECHANISM_INVALID, 5)"
    by (clarsimp simp: CKK_defs)
  from r1 r2 r3 r4 r5 r6 r7 r8 r9 d' show ?thesis by simp
qed

end
